theory Spec2Isabelle
  imports Complex_Main "HOL-Library.Sublist"
begin

section \<open>Python values and string primitives\<close>

text \<open>
  A Python \<open>str\<close> is modelled as a \<open>string\<close>: one \<open>char\<close> stands for one code point
  (the Latin-1 range), so \<open>length\<close> is Python's \<open>len\<close>. Python's \<open>int\<close> is \<open>int\<close>.
  Values of type \<open>Any\<close> (metadata values, parsed LLM responses) are \<open>pyval\<close>.
\<close>

datatype pyval =
    PNone
  | PBool bool
  | PInt int
  | PFloat real
  | PStr string
  | PList "pyval list"
  | PDict "(string \<times> pyval) list"

text \<open>\<open>str.isspace\<close> on one code point below 256.\<close>

definition py_isspace :: "char \<Rightarrow> bool" where
  "py_isspace c =
     (let n = (of_char c :: nat)
      in (9 \<le> n \<and> n \<le> 13) \<or> (28 \<le> n \<and> n \<le> 32) \<or> n = 133 \<or> n = 160)"

text \<open>\<open>s.strip()\<close>: whitespace removed at both ends.\<close>

definition strip :: "string \<Rightarrow> string" where
  "strip s = rev (dropWhile py_isspace (rev (dropWhile py_isspace s)))"

text \<open>
  Slice bounds as Python normalises them: a negative bound counts from the end, and the
  result is clamped to \<open>0..n\<close>.
\<close>

definition py_norm :: "int \<Rightarrow> int \<Rightarrow> int" where
  "py_norm n i = (if i < 0 then max 0 (i + n) else min i n)"

text \<open>\<open>xs[a:b]\<close>.\<close>

definition py_slice :: "'a list \<Rightarrow> int \<Rightarrow> int \<Rightarrow> 'a list" where
  "py_slice xs a b =
     (let n = int (length xs); lo = py_norm n a; hi = py_norm n b
      in take (nat (hi - lo)) (drop (nat lo) xs))"

text \<open>\<open>s.rfind(c, a, b)\<close> for a one-character \<open>c\<close>: the highest index in the slice, or \<open>-1\<close>.\<close>

definition py_rfind_char :: "string \<Rightarrow> char \<Rightarrow> int \<Rightarrow> int \<Rightarrow> int" where
  "py_rfind_char s c a b =
     (let n = int (length s); lo = py_norm n a; seg = py_slice s a b
      in if c \<in> set seg
         then lo + int (length seg) - 1 - int (length (takeWhile (\<lambda>x. x \<noteq> c) (rev seg)))
         else - 1)"

text \<open>\<open>s.find(sub, a)\<close>: the lowest index at or after \<open>a\<close> where \<open>sub\<close> starts, or \<open>-1\<close>.\<close>

fun find_at :: "string \<Rightarrow> string \<Rightarrow> nat \<Rightarrow> int" where
  "find_at sub [] off = (if sub = [] then int off else - 1)"
| "find_at sub (c # cs) off =
     (if prefix sub (c # cs) then int off else find_at sub cs (Suc off))"

definition py_find :: "string \<Rightarrow> string \<Rightarrow> int \<Rightarrow> int" where
  "py_find s sub a =
     (let n = int (length s); lo = py_norm n a
      in if a > n then - 1 else find_at sub (drop (nat lo) s) (nat lo))"

text \<open>
  \<open>s.split(sep)\<close> for a non-empty separator: the pieces between the non-overlapping
  occurrences of \<open>sep\<close>, scanned from the left. (Python raises on an empty separator; the
  chunker only passes the four fixed separators.)
\<close>

fun split_scan :: "string \<Rightarrow> string \<Rightarrow> string \<Rightarrow> string list" where
  "split_scan sep acc [] = [rev acc]"
| "split_scan sep acc (c # cs) =
     (if prefix sep (c # cs)
      then rev acc # split_scan sep [] (drop (length sep - 1) cs)
      else split_scan sep (c # acc) cs)"

definition py_split :: "string \<Rightarrow> string \<Rightarrow> string list" where
  "py_split sep s = split_scan sep [] s"

text \<open>\<open>sep.join(xs)\<close>.\<close>

fun py_join :: "string \<Rightarrow> string list \<Rightarrow> string" where
  "py_join sep [] = []"
| "py_join sep [x] = x"
| "py_join sep (x # y # ys) = x @ sep @ py_join sep (y # ys)"

section \<open>Text chunker\<close>

text \<open>The dataclass \<open>Chunk\<close>; its field \<open>text\<close> is named \<open>chunk_text\<close> here.\<close>

record Chunk =
  chunk_text :: string
  chunk_index :: int
  doc_id :: string
  start_char :: int
  end_char :: int
  token_count :: int
  metadata :: "string \<rightharpoonup> pyval"

record ChunkingSettings =
  chunk_size :: int
  chunk_overlap :: int
  max_chunk_size :: int

datatype ChunkStrategy = FIXED_SIZE | SEMANTIC | RECURSIVE | SENTENCE

text \<open>
  \<open>count_tokens\<close> is \<open>len(self.encoding.encode(text))\<close> with tiktoken's encoder, which is
  not part of the repository: every function below takes it as the parameter \<open>tok\<close>,
  and the general theorems hold for every tokenizer.
\<close>

type_synonym tokenizer = "string \<Rightarrow> nat"

subsection \<open>Fixed-size strategy\<close>

text \<open>The end of the window that starts at \<open>start\<close> (lines 118 to 125).\<close>

definition window_end :: "ChunkingSettings \<Rightarrow> string \<Rightarrow> int \<Rightarrow> int" where
  "window_end settings doc_text start =
     (let end = start + chunk_size settings
      in if end < int (length doc_text)
         then (let last_space = py_rfind_char doc_text CHR '' '' start end
               in if last_space > start then last_space else end)
         else end)"

text \<open>The start of the next window (line 146).\<close>

definition next_start :: "ChunkingSettings \<Rightarrow> string \<Rightarrow> int \<Rightarrow> int" where
  "next_start settings doc_text start =
     (let end = window_end settings doc_text start; overlap = chunk_overlap settings
      in if end - overlap > start then end - overlap else end)"

text \<open>The chunks after one iteration: the window's text, stripped, is appended unless empty.\<close>

definition fixed_emit ::
  "tokenizer \<Rightarrow> ChunkingSettings \<Rightarrow> string \<Rightarrow> string \<Rightarrow> (string \<rightharpoonup> pyval) \<Rightarrow>
   int \<Rightarrow> int \<Rightarrow> Chunk list \<Rightarrow> Chunk list \<times> int" where
  "fixed_emit tok settings doc_text did md start idx chunks =
     (let end = window_end settings doc_text start;
          ctext = strip (py_slice doc_text start end)
      in if ctext \<noteq> []
         then (chunks @ [\<lparr>chunk_text = ctext, chunk_index = idx, doc_id = did,
                          start_char = start, end_char = end,
                          token_count = int (tok ctext),
                          metadata = md(''strategy'' \<mapsto> PStr ''fixed_size'')\<rparr>],
               idx + 1)
         else (chunks, idx))"

text \<open>
  The \<open>while start < len(text)\<close> loop. It may run forever, so the result is an option:
  \<open>None\<close> is the loop that never returns.
\<close>

partial_function (option) fixed_loop ::
  "tokenizer \<Rightarrow> ChunkingSettings \<Rightarrow> string \<Rightarrow> string \<Rightarrow> (string \<rightharpoonup> pyval) \<Rightarrow>
   int \<Rightarrow> int \<Rightarrow> Chunk list \<Rightarrow> Chunk list option" where
  "fixed_loop tok settings doc_text did md start idx chunks =
     (if start < int (length doc_text)
      then (case fixed_emit tok settings doc_text did md start idx chunks of
              (chunks', idx') \<Rightarrow>
                fixed_loop tok settings doc_text did md (next_start settings doc_text start) idx' chunks')
      else Some chunks)"

definition chunk_fixed_size ::
  "tokenizer \<Rightarrow> ChunkingSettings \<Rightarrow> string \<Rightarrow> string \<Rightarrow> (string \<rightharpoonup> pyval) \<Rightarrow>
   Chunk list option" where
  "chunk_fixed_size tok settings doc_text did md = fixed_loop tok settings doc_text did md 0 0 []"

subsection \<open>Recursive strategy\<close>

definition separators :: "string list" where
  "separators = [''\<newline>\<newline>'', ''\<newline>'', ''. '', '' '']"

text \<open>
  The \<open>for split in splits\<close> loop of \<open>_split_text\<close> (lines 177 to 203), with the recursive
  call on the remaining separators passed as \<open>sub\<close>. The state is \<open>result\<close>,
  \<open>current_chunk\<close> and \<open>current_size\<close>.
\<close>

fun group_splits ::
  "tokenizer \<Rightarrow> int \<Rightarrow> string \<Rightarrow> (string \<Rightarrow> string list) \<Rightarrow> string list \<Rightarrow>
   string list \<Rightarrow> string list \<Rightarrow> int \<Rightarrow> string list" where
  "group_splits tok budget sep sub [] result current_chunk current_size =
     (if current_chunk \<noteq> [] then result @ [py_join sep current_chunk] else result)"
| "group_splits tok budget sep sub (split # splits) result current_chunk current_size =
     (let split_tokens = int (tok split)
      in if split_tokens > budget
         then (if current_chunk \<noteq> []
               then group_splits tok budget sep sub splits
                      ((result @ [py_join sep current_chunk]) @ sub split) [] 0
               else group_splits tok budget sep sub splits
                      (result @ sub split) current_chunk current_size)
         else if current_size + split_tokens > budget
         then (if current_chunk \<noteq> []
               then group_splits tok budget sep sub splits
                      (result @ [py_join sep current_chunk]) [split] split_tokens
               else group_splits tok budget sep sub splits result current_chunk current_size)
         else group_splits tok budget sep sub splits result
                (current_chunk @ [split]) (current_size + split_tokens))"

text \<open>\<open>_split_text(text, separators)\<close>, by recursion on the list of separators.\<close>

primrec split_text :: "tokenizer \<Rightarrow> int \<Rightarrow> string list \<Rightarrow> string \<Rightarrow> string list" where
  "split_text tok budget [] = (\<lambda>doc_text. [doc_text])"
| "split_text tok budget (separator # remaining_separators) =
     (\<lambda>doc_text. if int (tok doc_text) \<le> budget then [doc_text]
            else group_splits tok budget separator (split_text tok budget remaining_separators)
                   (py_split separator doc_text) [] [] 0)"

text \<open>
  The loop that builds the \<open>Chunk\<close> objects (lines 210 to 231) over
  \<open>enumerate(text_chunks)\<close>; \<open>i\<close> is the index \<open>enumerate\<close> supplies.
\<close>

fun recursive_emit ::
  "tokenizer \<Rightarrow> string \<Rightarrow> string \<Rightarrow> (string \<rightharpoonup> pyval) \<Rightarrow> int \<Rightarrow> string list \<Rightarrow>
   int \<Rightarrow> Chunk list \<Rightarrow> Chunk list" where
  "recursive_emit tok doc_text did md i [] char_position chunks = chunks"
| "recursive_emit tok doc_text did md i (piece # pieces) char_position chunks =
     (let ctext = strip piece
      in if ctext = []
         then recursive_emit tok doc_text did md (i + 1) pieces char_position chunks
         else (let start = py_find doc_text ctext char_position;
                   end = start + int (length ctext)
               in recursive_emit tok doc_text did md (i + 1) pieces end
                    (chunks @ [\<lparr>chunk_text = ctext, chunk_index = i, doc_id = did,
                                 start_char = start, end_char = end,
                                 token_count = int (tok ctext),
                                 metadata = md(''strategy'' \<mapsto> PStr ''recursive'')\<rparr>])))"

definition chunk_recursive ::
  "tokenizer \<Rightarrow> ChunkingSettings \<Rightarrow> string \<Rightarrow> string \<Rightarrow> (string \<rightharpoonup> pyval) \<Rightarrow> Chunk list" where
  "chunk_recursive tok settings doc_text did md =
     recursive_emit tok doc_text did md 0
       (split_text tok (chunk_size settings) separators doc_text) 0 []"

subsection \<open>Sentence strategy\<close>

text \<open>
  \<open>re.split(r'(?<=[.!?])\s+', text)\<close>: the text is cut at every maximal run of whitespace
  that directly follows a full stop, an exclamation mark or a question mark.
  \<open>after_stop\<close> says that the previous character is one of the three.
\<close>

function sentence_scan :: "bool \<Rightarrow> string \<Rightarrow> string \<Rightarrow> string list" where
  "sentence_scan after_stop acc [] = [rev acc]"
| "sentence_scan after_stop acc (c # cs) =
     (if after_stop \<and> py_isspace c
      then rev acc # sentence_scan False [] (dropWhile py_isspace cs)
      else sentence_scan (c = CHR ''.'' \<or> c = CHR ''!'' \<or> c = CHR ''?'') (c # acc) cs)"
  by pat_completeness auto
termination
  by (relation "measure (\<lambda>(a, acc, s). length s)")
     (auto simp: length_dropWhile_le less_Suc_eq_le)

definition split_sentences :: "string \<Rightarrow> string list" where
  "split_sentences s = sentence_scan False [] s"

text \<open>\<open>s.split()\<close>: the maximal runs of non-whitespace characters.\<close>

fun words_scan :: "string \<Rightarrow> string \<Rightarrow> string list" where
  "words_scan acc [] = (if acc = [] then [] else [rev acc])"
| "words_scan acc (c # cs) =
     (if py_isspace c
      then (if acc = [] then words_scan [] cs else rev acc # words_scan [] cs)
      else words_scan (c # acc) cs)"

definition py_words :: "string \<Rightarrow> string list" where
  "py_words s = words_scan [] s"

text \<open>
  The block the sentence strategy repeats wherever it emits a chunk: the parts joined by a
  blank, located from \<open>char_position\<close> on. It returns the chunk and the new
  \<open>char_position\<close>.
\<close>

definition sentence_chunk ::
  "string \<Rightarrow> string \<Rightarrow> (string \<rightharpoonup> pyval) \<Rightarrow> string list \<Rightarrow> int \<Rightarrow> int \<Rightarrow> int \<Rightarrow>
   Chunk \<times> int" where
  "sentence_chunk doc_text did md parts tokens idx char_position =
     (let ctext = py_join '' '' parts;
          start = py_find doc_text ctext char_position;
          end = start + int (length ctext)
      in (\<lparr>chunk_text = ctext, chunk_index = idx, doc_id = did,
           start_char = start, end_char = end, token_count = tokens,
           metadata = md(''strategy'' \<mapsto> PStr ''sentence'')\<rparr>, end))"

text \<open>
  The \<open>for word in words\<close> loop (lines 288 to 313). The state is \<open>chunks\<close>,
  \<open>chunk_index\<close>, \<open>char_position\<close>, \<open>temp_chunk\<close> and \<open>temp_tokens\<close>.
\<close>

fun words_loop ::
  "tokenizer \<Rightarrow> int \<Rightarrow> string \<Rightarrow> string \<Rightarrow> (string \<rightharpoonup> pyval) \<Rightarrow> string list \<Rightarrow>
   Chunk list \<Rightarrow> int \<Rightarrow> int \<Rightarrow> string list \<Rightarrow> int \<Rightarrow>
   Chunk list \<times> int \<times> int \<times> string list \<times> int" where
  "words_loop tok budget doc_text did md [] chunks idx pos temp_chunk temp_tokens =
     (chunks, idx, pos, temp_chunk, temp_tokens)"
| "words_loop tok budget doc_text did md (word # words) chunks idx pos temp_chunk temp_tokens =
     (let word_tokens = int (tok word)
      in if temp_tokens + word_tokens > budget
         then (if temp_chunk \<noteq> []
               then (case sentence_chunk doc_text did md temp_chunk temp_tokens idx pos of
                       (c, pos') \<Rightarrow>
                         words_loop tok budget doc_text did md words (chunks @ [c]) (idx + 1) pos'
                           [word] word_tokens)
               else words_loop tok budget doc_text did md words chunks idx pos [word] word_tokens)
         else words_loop tok budget doc_text did md words chunks idx pos
                (temp_chunk @ [word]) (temp_tokens + word_tokens))"

text \<open>
  The \<open>for sentence in sentences\<close> loop (lines 253 to 345) and the last chunk
  (lines 348 to 362). The state is \<open>chunks\<close>, \<open>current_chunk\<close>, \<open>current_tokens\<close>,
  \<open>chunk_index\<close> and \<open>char_position\<close>.
\<close>

fun sentence_loop ::
  "tokenizer \<Rightarrow> int \<Rightarrow> string \<Rightarrow> string \<Rightarrow> (string \<rightharpoonup> pyval) \<Rightarrow> string list \<Rightarrow>
   Chunk list \<Rightarrow> string list \<Rightarrow> int \<Rightarrow> int \<Rightarrow> int \<Rightarrow> Chunk list" where
  "sentence_loop tok budget doc_text did md [] chunks current_chunk current_tokens idx pos =
     (if current_chunk \<noteq> []
      then chunks @ [fst (sentence_chunk doc_text did md current_chunk current_tokens idx pos)]
      else chunks)"
| "sentence_loop tok budget doc_text did md (raw # sentences) chunks current_chunk current_tokens
     idx pos =
     (let sentence = strip raw
      in if sentence = []
         then sentence_loop tok budget doc_text did md sentences chunks current_chunk
                current_tokens idx pos
         else
           (let sentence_tokens = int (tok sentence)
            in if sentence_tokens > budget
               then
                 (case (if current_chunk \<noteq> []
                        then (case sentence_chunk doc_text did md current_chunk current_tokens
                                     idx pos of
                                (c, pos') \<Rightarrow> (chunks @ [c], idx + 1, pos', [], 0))
                        else (chunks, idx, pos, current_chunk, current_tokens)) of
                    (chunks1, idx1, pos1, current1, tokens1) \<Rightarrow>
                      (case words_loop tok budget doc_text did md (py_words sentence)
                              chunks1 idx1 pos1 [] 0 of
                         (chunks2, idx2, pos2, temp_chunk, temp_tokens) \<Rightarrow>
                           if temp_chunk \<noteq> []
                           then sentence_loop tok budget doc_text did md sentences chunks2
                                  temp_chunk temp_tokens idx2 pos2
                           else sentence_loop tok budget doc_text did md sentences chunks2
                                  current1 tokens1 idx2 pos2))
               else if current_tokens + sentence_tokens > budget
               then (if current_chunk \<noteq> []
                     then (case sentence_chunk doc_text did md current_chunk current_tokens
                                  idx pos of
                             (c, pos') \<Rightarrow>
                               sentence_loop tok budget doc_text did md sentences (chunks @ [c])
                                 [sentence] sentence_tokens (idx + 1) pos')
                     else sentence_loop tok budget doc_text did md sentences chunks
                            [sentence] sentence_tokens idx pos)
               else sentence_loop tok budget doc_text did md sentences chunks
                      (current_chunk @ [sentence]) (current_tokens + sentence_tokens)
                      idx pos))"

definition chunk_by_sentence ::
  "tokenizer \<Rightarrow> ChunkingSettings \<Rightarrow> string \<Rightarrow> string \<Rightarrow> (string \<rightharpoonup> pyval) \<Rightarrow> Chunk list" where
  "chunk_by_sentence tok settings doc_text did md =
     sentence_loop tok (chunk_size settings) doc_text did md (split_sentences doc_text) [] [] 0 0 0"

subsection \<open>Semantic strategy and dispatch\<close>

definition chunk_semantic ::
  "tokenizer \<Rightarrow> ChunkingSettings \<Rightarrow> string \<Rightarrow> string \<Rightarrow> (string \<rightharpoonup> pyval) \<Rightarrow> Chunk list" where
  "chunk_semantic tok settings doc_text did md = chunk_recursive tok settings doc_text did md"

text \<open>
  \<open>chunk_document\<close>: a missing \<open>metadata\<close> is the empty dict. The result is an option only
  because the fixed-size loop may not return; the four members of the enum are all
  dispatched, so the final \<open>raise ValueError\<close> is not reached.
\<close>

definition chunk_document ::
  "tokenizer \<Rightarrow> ChunkingSettings \<Rightarrow> ChunkStrategy \<Rightarrow> string \<Rightarrow> string \<Rightarrow>
   (string \<rightharpoonup> pyval) option \<Rightarrow> Chunk list option" where
  "chunk_document tok settings strategy doc_text did metadata_opt =
     (let md = (case metadata_opt of None \<Rightarrow> Map.empty | Some m \<Rightarrow> m)
      in case strategy of
           FIXED_SIZE \<Rightarrow> chunk_fixed_size tok settings doc_text did md
         | SEMANTIC \<Rightarrow> Some (chunk_semantic tok settings doc_text did md)
         | RECURSIVE \<Rightarrow> Some (chunk_recursive tok settings doc_text did md)
         | SENTENCE \<Rightarrow> Some (chunk_by_sentence tok settings doc_text did md))"

subsection \<open>Properties of chunks\<close>

text \<open>A text that is not empty and does not begin with whitespace.\<close>

definition visible :: "string \<Rightarrow> bool" where
  "visible s \<longleftrightarrow> s \<noteq> [] \<and> \<not> py_isspace (hd s)"

text \<open>The offsets of a chunk are in order and its text is visible.\<close>

definition chunk_ok :: "Chunk \<Rightarrow> bool" where
  "chunk_ok c \<longleftrightarrow> start_char c < end_char c \<and> visible (chunk_text c)"

section \<open>Exceptions, retries and the external services\<close>

text \<open>
  A Python exception is a value. \<open>ServiceError\<close> is any exception an external service
  raises; \<open>RetryError\<close> is what tenacity raises when the last attempt has failed.
\<close>

datatype py_error =
    ValueError string
  | TypeError
  | AttributeError
  | IndexError
  | ZeroDivisionError
  | ServiceError string
  | RetryError py_error

text \<open>
  \<open>@retry(stop=stop_after_attempt(3), ...)\<close>: the call is attempted up to three times;
  the first success is returned, and after the third failure \<open>RetryError\<close> is raised. The
  state of the outside world \<open>'w\<close> is threaded through the attempts (the waits between
  them are not modelled).
\<close>

fun retry_loop ::
  "nat \<Rightarrow> py_error \<Rightarrow> ('w \<Rightarrow> (py_error + 'a) \<times> 'w) \<Rightarrow> 'w \<Rightarrow> (py_error + 'a) \<times> 'w" where
  "retry_loop 0 last_error attempt w = (Inl (RetryError last_error), w)"
| "retry_loop (Suc n) last_error attempt w =
     (case attempt w of
        (Inr x, w') \<Rightarrow> (Inr x, w')
      | (Inl e, w') \<Rightarrow> retry_loop n e attempt w')"

definition with_retry :: "('w \<Rightarrow> (py_error + 'a) \<times> 'w) \<Rightarrow> 'w \<Rightarrow> (py_error + 'a) \<times> 'w" where
  "with_retry attempt w =
     (case attempt w of
        (Inr x, w') \<Rightarrow> (Inr x, w')
      | (Inl e, w') \<Rightarrow> retry_loop 2 e attempt w')"

text \<open>
  What a block can raise. \<open>except Exception\<close> catches an instance of \<open>Exception\<close>; an
  exception outside that class (\<open>SystemExit\<close>, \<open>KeyboardInterrupt\<close>, \<open>GeneratorExit\<close>)
  passes every such handler, and is kept here with the name of its class. The external
  services of this program raise instances of \<open>Exception\<close> only; \<open>eval\<close>, which runs the
  text it is given, can raise either.
\<close>

datatype raised = Exception py_error | BaseException string

text \<open>
  The same decorator around a call that can raise either and that may not return
  (\<open>None\<close>): tenacity retries after an instance of \<open>Exception\<close> only and raises anything
  else again at once, without a further attempt.
\<close>

fun retry_call ::
  "nat \<Rightarrow> py_error \<Rightarrow> ('w \<Rightarrow> ((raised + 'a) \<times> 'w) option) \<Rightarrow> 'w \<Rightarrow>
   ((raised + 'a) \<times> 'w) option" where
  "retry_call 0 last_error attempt w = Some (Inl (Exception (RetryError last_error)), w)"
| "retry_call (Suc n) last_error attempt w =
     (case attempt w of
        None \<Rightarrow> None
      | Some (Inr x, w') \<Rightarrow> Some (Inr x, w')
      | Some (Inl (Exception e), w') \<Rightarrow> retry_call n e attempt w'
      | Some (Inl (BaseException b), w') \<Rightarrow> Some (Inl (BaseException b), w'))"

definition with_retry_call ::
  "('w \<Rightarrow> ((raised + 'a) \<times> 'w) option) \<Rightarrow> 'w \<Rightarrow> ((raised + 'a) \<times> 'w) option" where
  "with_retry_call attempt w =
     (case attempt w of
        None \<Rightarrow> None
      | Some (Inr x, w') \<Rightarrow> Some (Inr x, w')
      | Some (Inl (Exception e), w') \<Rightarrow> retry_call 2 e attempt w'
      | Some (Inl (BaseException b), w') \<Rightarrow> Some (Inl (BaseException b), w'))"

section \<open>Embedding generator\<close>

text \<open>
  \<open>openai.embeddings.create(model, input)\<close> is external: it is the parameter \<open>api\<close>, which
  takes the state of the world, the model name and the input (one text or a list of texts)
  and returns the embeddings of \<open>response.data\<close>, or raises. An embedding is a list of
  reals; no arithmetic is done on it.
\<close>

datatype embed_input = OneText string | Texts "string list"

type_synonym 'w embeddings_api =
  "'w \<Rightarrow> string \<Rightarrow> embed_input \<Rightarrow> (py_error + real list list) \<times> 'w"

text \<open>\<open>_get_embedding_dimension\<close>.\<close>

definition get_embedding_dimension :: "string \<Rightarrow> nat" where
  "get_embedding_dimension model =
     (if model = ''text-embedding-3-small'' then 1536
      else if model = ''text-embedding-3-large'' then 3072
      else if model = ''text-embedding-ada-002'' then 1536
      else 1536)"

text \<open>\<open>text.replace("\n", " ").strip()\<close>.\<close>

definition clean_text :: "string \<Rightarrow> string" where
  "clean_text s = strip (map (\<lambda>c. if c = CHR 0x0A then CHR '' '' else c) s)"

text \<open>One attempt of \<open>generate_embedding\<close>: \<open>response.data[0]\<close> raises on an empty response.\<close>

definition embedding_attempt ::
  "'w embeddings_api \<Rightarrow> string \<Rightarrow> string \<Rightarrow> 'w \<Rightarrow> (py_error + real list) \<times> 'w" where
  "embedding_attempt api model s w =
     (case api w model (OneText (clean_text s)) of
        (Inl e, w') \<Rightarrow> (Inl e, w')
      | (Inr [], w') \<Rightarrow> (Inl IndexError, w')
      | (Inr (embedding # _), w') \<Rightarrow> (Inr embedding, w'))"

definition generate_embedding ::
  "'w embeddings_api \<Rightarrow> string \<Rightarrow> string \<Rightarrow> 'w \<Rightarrow> (py_error + real list) \<times> 'w" where
  "generate_embedding api model s w = with_retry (embedding_attempt api model s) w"

text \<open>\<open>[0.0] * self.dimension\<close>.\<close>

definition zero_vector :: "string \<Rightarrow> real list" where
  "zero_vector model = replicate (get_embedding_dimension model) 0"

text \<open>
  The fallback of \<open>generate_embeddings_batch\<close> (lines 128 to 135): each text of the group
  on its own, a zero vector for a text that still fails.
\<close>

fun embed_individually ::
  "'w embeddings_api \<Rightarrow> string \<Rightarrow> string list \<Rightarrow> 'w \<Rightarrow> real list list \<times> 'w" where
  "embed_individually api model [] w = ([], w)"
| "embed_individually api model (s # rest) w =
     (case generate_embedding api model s w of
        (r, w') \<Rightarrow>
          (case embed_individually api model rest w' of
             (vs, w'') \<Rightarrow>
               ((case r of Inr embedding \<Rightarrow> embedding | Inl e \<Rightarrow> zero_vector model) # vs, w'')))"

text \<open>One group (lines 105 to 135): one call for the cleaned texts, the fallback if it raises.\<close>

definition embed_group ::
  "'w embeddings_api \<Rightarrow> string \<Rightarrow> string list \<Rightarrow> 'w \<Rightarrow> real list list \<times> 'w" where
  "embed_group api model batch_texts w =
     (case api w model (Texts (map clean_text batch_texts)) of
        (Inr batch_embeddings, w') \<Rightarrow> (batch_embeddings, w')
      | (Inl e, w') \<Rightarrow> embed_individually api model batch_texts w')"

text \<open>The \<open>for i in range(num_batches)\<close> loop; \<open>all_embeddings\<close> is the accumulator.\<close>

fun batch_loop ::
  "'w embeddings_api \<Rightarrow> string \<Rightarrow> string list \<Rightarrow> int \<Rightarrow> nat list \<Rightarrow> real list list \<Rightarrow> 'w \<Rightarrow>
   real list list \<times> 'w" where
  "batch_loop api model texts batch_size [] all_embeddings w = (all_embeddings, w)"
| "batch_loop api model texts batch_size (i # rest) all_embeddings w =
     (let start_idx = int i * batch_size;
          end_idx = min ((int i + 1) * batch_size) (int (length texts));
          batch_texts = py_slice texts start_idx end_idx
      in case embed_group api model batch_texts w of
           (vs, w') \<Rightarrow> batch_loop api model texts batch_size rest (all_embeddings @ vs) w')"

text \<open>
  \<open>generate_embeddings_batch\<close>. The floor division raises on a zero batch size;
  \<open>range\<close> of a number that is not positive is empty. (\<open>show_progress\<close> only selects a
  progress bar.)
\<close>

definition generate_embeddings_batch ::
  "'w embeddings_api \<Rightarrow> string \<Rightarrow> string list \<Rightarrow> int \<Rightarrow> 'w \<Rightarrow>
   (py_error + real list list) \<times> 'w" where
  "generate_embeddings_batch api model texts batch_size w =
     (if batch_size = 0 then (Inl ZeroDivisionError, w)
      else (let num_batches = (int (length texts) + batch_size - 1) div batch_size
            in case batch_loop api model texts batch_size [0..<nat num_batches] [] w of
                 (all_embeddings, w') \<Rightarrow> (Inr all_embeddings, w')))"

subsection \<open>Enriched chunks and vector records\<close>

text \<open>
  The dataclass \<open>EnrichedChunk\<close>; its field \<open>keywords\<close> is named \<open>key_words\<close> here. The
  five fields that come from the parsed response of the language model are stored as they
  are, without validation, so they are \<open>pyval\<close>.
\<close>

record EnrichedChunk =
  original_chunk :: Chunk
  contextual_summary :: pyval
  key_concepts :: pyval
  key_words :: pyval
  topic :: pyval
  questions :: pyval
  enhanced_text :: string

text \<open>The dict \<open>{"id": ..., "values": ..., "metadata": ...}\<close>.\<close>

record VectorRecord =
  vector_id :: string
  vector_values :: "real list"
  vector_metadata :: "string \<rightharpoonup> pyval"

text \<open>\<open>v[:n]\<close> and \<open>sep.join(v)\<close> on a value; both raise \<open>TypeError\<close> where Python does.\<close>

fun py_take :: "nat \<Rightarrow> pyval \<Rightarrow> py_error + pyval" where
  "py_take n (PList xs) = Inr (PList (take n xs))"
| "py_take n (PStr s) = Inr (PStr (take n s))"
| "py_take n v = Inl TypeError"

fun the_strings :: "pyval list \<Rightarrow> string list option" where
  "the_strings [] = Some []"
| "the_strings (PStr s # rest) = map_option ((#) s) (the_strings rest)"
| "the_strings (v # rest) = None"

fun join_value :: "string \<Rightarrow> pyval \<Rightarrow> py_error + string" where
  "join_value sep (PList xs) =
     (case the_strings xs of Some ss \<Rightarrow> Inr (py_join sep ss) | None \<Rightarrow> Inl TypeError)"
| "join_value sep (PStr s) = Inr (py_join sep (map (\<lambda>c. [c]) s))"
| "join_value sep (PDict kvs) = Inr (py_join sep (map fst kvs))"
| "join_value sep v = Inl TypeError"

definition join_first :: "string \<Rightarrow> nat \<Rightarrow> pyval \<Rightarrow> py_error + string" where
  "join_first sep n v = (case py_take n v of Inl e \<Rightarrow> Inl e | Inr v' \<Rightarrow> join_value sep v')"

text \<open>\<open>isinstance(v, (str, int, float, bool))\<close>.\<close>

fun is_scalar :: "pyval \<Rightarrow> bool" where
  "is_scalar (PStr s) = True"
| "is_scalar (PInt i) = True"
| "is_scalar (PFloat x) = True"
| "is_scalar (PBool b) = True"
| "is_scalar v = False"

text \<open>The entries of the chunk's own metadata that the dict comprehension keeps.\<close>

definition inherited_scalars :: "(string \<rightharpoonup> pyval) \<Rightarrow> (string \<rightharpoonup> pyval)" where
  "inherited_scalars md =
     (\<lambda>k. case md k of Some v \<Rightarrow> if is_scalar v then Some v else None | None \<Rightarrow> None)"

text \<open>
  The eleven fixed entries of the metadata dict (lines 165 to 181, and again 233 to 244);
  a join raises \<open>TypeError\<close> on a value that is not a sequence of strings.
\<close>

definition annotation_fields :: "EnrichedChunk \<Rightarrow> py_error + (string \<rightharpoonup> pyval)" where
  "annotation_fields ec =
     (let c = original_chunk ec
      in case join_first '', '' 5 (key_concepts ec) of
           Inl e \<Rightarrow> Inl e
         | Inr concepts \<Rightarrow>
             (case join_first '', '' 10 (key_words ec) of
                Inl e \<Rightarrow> Inl e
              | Inr words \<Rightarrow>
                  (case join_first '' | '' 3 (questions ec) of
                     Inl e \<Rightarrow> Inl e
                   | Inr qs \<Rightarrow>
                       Inr [''doc_id'' \<mapsto> PStr (doc_id c),
                            ''chunk_index'' \<mapsto> PInt (chunk_index c),
                            ''start_char'' \<mapsto> PInt (start_char c),
                            ''end_char'' \<mapsto> PInt (end_char c),
                            ''token_count'' \<mapsto> PInt (token_count c),
                            ''text'' \<mapsto> PStr (py_slice (chunk_text c) 0 1000),
                            ''contextual_summary'' \<mapsto> contextual_summary ec,
                            ''topic'' \<mapsto> topic ec,
                            ''key_concepts'' \<mapsto> PStr concepts,
                            ''keywords'' \<mapsto> PStr words,
                            ''questions'' \<mapsto> PStr qs])))"

text \<open>The whole metadata dict: the fixed entries, then \<open>**{...}\<close>, whose entries win.\<close>

definition build_metadata :: "EnrichedChunk \<Rightarrow> py_error + (string \<rightharpoonup> pyval)" where
  "build_metadata ec =
     (case annotation_fields ec of
        Inl e \<Rightarrow> Inl e
      | Inr fixed \<Rightarrow> Inr (fixed ++ inherited_scalars (metadata (original_chunk ec))))"

text \<open>\<open>str(n)\<close> for an integer, and the f-string \<open>f"{doc_id}_{chunk_index}"\<close>.\<close>

fun str_nat :: "nat \<Rightarrow> string" where
  "str_nat n =
     (if n < 10 then [''0123456789'' ! n]
      else str_nat (n div 10) @ [''0123456789'' ! (n mod 10)])"

definition str_int :: "int \<Rightarrow> string" where
  "str_int i = (if i < 0 then CHR ''-'' # str_nat (nat (- i)) else str_nat (nat i))"

definition make_vector_id :: "string \<Rightarrow> int \<Rightarrow> string" where
  "make_vector_id did idx = did @ ''_'' @ str_int idx"

definition text_for_embedding :: "bool \<Rightarrow> EnrichedChunk \<Rightarrow> string" where
  "text_for_embedding use_enhanced_text ec =
     (if use_enhanced_text then enhanced_text ec else chunk_text (original_chunk ec))"

text \<open>The record built from an enriched chunk and its embedding.\<close>

definition make_record :: "EnrichedChunk \<Rightarrow> real list \<Rightarrow> py_error + VectorRecord" where
  "make_record ec embedding =
     (case build_metadata ec of
        Inl e \<Rightarrow> Inl e
      | Inr md \<Rightarrow>
          Inr \<lparr>vector_id = make_vector_id (doc_id (original_chunk ec))
                              (chunk_index (original_chunk ec)),
               vector_values = embedding,
               vector_metadata = md\<rparr>)"

definition create_vector_for_enriched_chunk ::
  "'w embeddings_api \<Rightarrow> string \<Rightarrow> EnrichedChunk \<Rightarrow> bool \<Rightarrow> 'w \<Rightarrow>
   (py_error + VectorRecord) \<times> 'w" where
  "create_vector_for_enriched_chunk api model ec use_enhanced_text w =
     (case generate_embedding api model (text_for_embedding use_enhanced_text ec) w of
        (Inl e, w') \<Rightarrow> (Inl e, w')
      | (Inr embedding, w') \<Rightarrow> (make_record ec embedding, w'))"

text \<open>The loop over \<open>zip(enriched_chunks, embeddings)\<close>; the first raise ends it.\<close>

fun make_records :: "(EnrichedChunk \<times> real list) list \<Rightarrow> py_error + VectorRecord list" where
  "make_records [] = Inr []"
| "make_records ((ec, embedding) # rest) =
     (case make_record ec embedding of
        Inl e \<Rightarrow> Inl e
      | Inr r \<Rightarrow> (case make_records rest of Inl e \<Rightarrow> Inl e | Inr rs \<Rightarrow> Inr (r # rs)))"

text \<open>\<open>create_vectors_batch\<close>; the batch size is the default, 100.\<close>

definition create_vectors_batch ::
  "'w embeddings_api \<Rightarrow> string \<Rightarrow> EnrichedChunk list \<Rightarrow> bool \<Rightarrow> 'w \<Rightarrow>
   (py_error + VectorRecord list) \<times> 'w" where
  "create_vectors_batch api model enriched_chunks use_enhanced_text w =
     (case generate_embeddings_batch api model
             (map (text_for_embedding use_enhanced_text) enriched_chunks) 100 w of
        (Inl e, w') \<Rightarrow> (Inl e, w')
      | (Inr embeddings, w') \<Rightarrow> (make_records (zip enriched_chunks embeddings), w'))"

section \<open>Context generator\<close>

text \<open>
  The language-model services are external. \<open>openai_chat\<close> takes the system message and
  the prompt and returns the content of the first choice; \<open>anthropic_messages\<close> takes
  \<open>max_tokens\<close> and the prompt and returns the text of the first content block; both may
  raise. \<open>py_eval\<close> is Python's \<open>eval\<close>, which \<open>_call_openai\<close> applies to the content the
  service returned: it runs that text as an expression, so it may return any value, raise
  an instance of \<open>Exception\<close>, raise an exception outside that class, change the state
  of the world, or never return (\<open>None\<close>). \<open>json_loads\<close> is \<open>json.loads\<close>, which returns a
  value or raises an instance of \<open>Exception\<close>, and \<open>py_str\<close> is \<open>str(v)\<close>, as an f-string
  applies it. (The model name, the temperature and the response format are constants of
  the call sites.)
\<close>

record 'w language_model =
  openai_chat :: "'w \<Rightarrow> string \<Rightarrow> string \<Rightarrow> (py_error + string) \<times> 'w"
  anthropic_messages :: "'w \<Rightarrow> nat \<Rightarrow> string \<Rightarrow> (py_error + string) \<times> 'w"
  py_eval :: "'w \<Rightarrow> string \<Rightarrow> ((raised + pyval) \<times> 'w) option"
  json_loads :: "string \<Rightarrow> py_error + pyval"
  py_str :: "pyval \<Rightarrow> string"

text \<open>
  The three prompt templates of \<open>_load_prompts\<close>, as \<open>str.format\<close> fills them: \<open>{text}\<close>
  and \<open>{doc_context}\<close> are replaced and the doubled braces become single ones.
\<close>

definition prompt_default :: "string \<Rightarrow> string \<Rightarrow> string" where
  \<open>prompt_default chunk_txt doc_context =
     ''Analise o seguinte trecho de um documento e forne'' @ [CHR 0xE7] @
     ''a:\<newline>'' @ ''\<newline>'' @
     ''1. Um resumo contextual em 2-3 frases que capture a ess'' @ [CHR 0xEA] @
     ''ncia e o prop'' @ [CHR 0xF3] @ ''sito do texto\<newline>'' @
     ''2. Uma lista de 3-5 conceitos-chave principais\<newline>'' @
     ''3. Uma lista de 5-8 palavras-chave relevantes\<newline>'' @
     ''4. O t'' @ [CHR 0xF3] @ ''pico principal em uma '' @ [CHR 0xFA] @
     ''nica frase\<newline>'' @
     ''5. 2-3 perguntas que este trecho pode responder\<newline>'' @
     ''\<newline>'' @ ''TEXTO:\<newline>'' @ chunk_txt @ ''\<newline>'' @
     ''\<newline>'' @ ''Responda APENAS no seguinte formato JSON:\<newline>'' @
     ''{\<newline>'' @ ''  "contextual_summary": "resumo aqui",\<newline>'' @
     ''  "key_concepts": ["conceito1", "conceito2", "conceito3"],\<newline>'' @
     ''  "keywords": ["palavra1", "palavra2", "palavra3"],\<newline>'' @
     ''  "topic": "t'' @ [CHR 0xF3] @ ''pico principal",\<newline>'' @
     ''  "questions": ["pergunta1?", "pergunta2?"]\<newline>'' @
     ''}''\<close>

definition prompt_detailed :: "string \<Rightarrow> string \<Rightarrow> string" where
  \<open>prompt_detailed chunk_txt doc_context =
     ''Como um especialista em an'' @ [CHR 0xE1] @
     ''lise de documentos, analise profundamente o seguinte texto:\<newline>'' @
     ''\<newline>'' @ ''TEXTO:\<newline>'' @ chunk_txt @ ''\<newline>'' @
     ''\<newline>'' @ ''CONTEXTO DO DOCUMENTO: '' @ doc_context @ ''\<newline>'' @
     ''\<newline>'' @ ''Forne'' @ [CHR 0xE7] @ ''a uma an'' @ [CHR 0xE1] @
     ''lise detalhada incluindo:\<newline>'' @
     ''1. RESUMO CONTEXTUAL: Explique o prop'' @ [CHR 0xF3] @
     ''sito e significado deste trecho no contexto maior\<newline>'' @
     ''2. CONCEITOS-CHAVE: Identifique os 3-5 conceitos mais importantes e relevantes\<newline>'' @
     ''3. PALAVRAS-CHAVE: Liste 5-8 termos que melhor representam o conte'' @
     [CHR 0xFA] @ ''do\<newline>'' @ ''4. T'' @ [CHR 0xD3] @
     ''PICO PRINCIPAL: Categorize o assunto principal em uma frase clara\<newline>'' @
     ''5. PERGUNTAS RESPONDIDAS: Que perguntas espec'' @ [CHR 0xED] @
     ''ficas este texto pode responder?\<newline>'' @
     ''\<newline>'' @ ''Responda em formato JSON:\<newline>'' @
     ''{\<newline>'' @ ''  "contextual_summary": "...",\<newline>'' @
     ''  "key_concepts": [...],\<newline>'' @
     ''  "keywords": [...],\<newline>'' @ ''  "topic": "...",\<newline>'' @
     ''  "questions": [...]\<newline>'' @ ''}''\<close>

definition prompt_technical :: "string \<Rightarrow> string \<Rightarrow> string" where
  \<open>prompt_technical chunk_txt doc_context =
     ''Analise este trecho t'' @ [CHR 0xE9] @ ''cnico com foco em:\<newline>'' @
     ''- Terminologia t'' @ [CHR 0xE9] @ ''cnica espec'' @ [CHR 0xED] @
     ''fica\<newline>'' @ ''- Conceitos e princ'' @ [CHR 0xED] @
     ''pios importantes\<newline>'' @ ''- Rela'' @ [CHR 0xE7] @ [CHR 0xF5] @
     ''es entre componentes/conceitos\<newline>'' @
     ''- Aplica'' @ [CHR 0xE7] @ [CHR 0xF5] @ ''es pr'' @ [CHR 0xE1] @
     ''ticas\<newline>'' @ ''\<newline>'' @ ''TEXTO:\<newline>'' @
     chunk_txt @ ''\<newline>'' @ ''\<newline>'' @
     ''Formato de resposta JSON:\<newline>'' @
     ''{\<newline>'' @ ''  "contextual_summary": "...",\<newline>'' @
     ''  "key_concepts": [...],\<newline>'' @
     ''  "keywords": [...],\<newline>'' @ ''  "topic": "...",\<newline>'' @
     ''  "questions": [...]\<newline>'' @ ''}''\<close>

text \<open>\<open>self.prompts.get(template, self.prompts["default"]).format(...)\<close>.\<close>

definition format_prompt :: "string \<Rightarrow> string \<Rightarrow> string \<Rightarrow> string" where
  "format_prompt template chunk_txt doc_context =
     (if template = ''detailed'' then prompt_detailed chunk_txt doc_context
      else if template = ''technical'' then prompt_technical chunk_txt doc_context
      else prompt_default chunk_txt doc_context)"

definition system_message_json :: string where
  "system_message_json =
     ''Voc'' @ [CHR 0xEA] @ '' '' @ [CHR 0xE9] @
     '' um assistente especializado em an'' @ [CHR 0xE1] @ ''lise e contextualiza'' @
     [CHR 0xE7] @ [CHR 0xE3] @ ''o de documentos. Sempre responda em formato JSON v'' @
     [CHR 0xE1] @ ''lido.''"

definition system_message_summary :: string where
  "system_message_summary =
     ''Voc'' @ [CHR 0xEA] @ '' '' @ [CHR 0xE9] @ '' um especialista em sumariza'' @
     [CHR 0xE7] @ [CHR 0xE3] @ ''o de documentos.''"

text \<open>
  One attempt of \<open>_call_openai\<close>: the completion, then \<open>eval(content)\<close> (line 168). The
  handler of the attempt raises again what it caught.
\<close>

definition call_openai_attempt ::
  "'w language_model \<Rightarrow> string \<Rightarrow> 'w \<Rightarrow> ((raised + pyval) \<times> 'w) option" where
  "call_openai_attempt lm prompt w =
     (case openai_chat lm w system_message_json prompt of
        (Inl e, w') \<Rightarrow> Some (Inl (Exception e), w')
      | (Inr content, w') \<Rightarrow> py_eval lm w' content)"

definition call_openai ::
  "'w language_model \<Rightarrow> string \<Rightarrow> 'w \<Rightarrow> ((raised + pyval) \<times> 'w) option" where
  "call_openai lm prompt w = with_retry_call (call_openai_attempt lm prompt) w"

text \<open>
  \<open>re.search(r'\{.*\}', content, re.DOTALL)\<close>: from the first opening brace to the last
  closing brace after it, if there is one.
\<close>

definition extract_json :: "string \<Rightarrow> string option" where
  "extract_json content =
     (let from_brace = dropWhile (\<lambda>c. c \<noteq> CHR ''{'') content
      in if CHR ''}'' \<in> set from_brace
         then Some (rev (dropWhile (\<lambda>c. c \<noteq> CHR ''}'') (rev from_brace)))
         else None)"

text \<open>One attempt of \<open>_call_anthropic\<close>.\<close>

definition call_anthropic_attempt ::
  "'w language_model \<Rightarrow> string \<Rightarrow> 'w \<Rightarrow> (py_error + pyval) \<times> 'w" where
  "call_anthropic_attempt lm prompt w =
     (case anthropic_messages lm w 1024 prompt of
        (Inl e, w') \<Rightarrow> (Inl e, w')
      | (Inr content, w') \<Rightarrow>
          (case extract_json content of
             Some json \<Rightarrow> (json_loads lm json, w')
           | None \<Rightarrow>
               (Inl (ValueError (''N'' @ [CHR 0xE3] @ ''o foi poss'' @ [CHR 0xED] @
                                  ''vel extrair JSON da resposta'')), w')))"

definition call_anthropic ::
  "'w language_model \<Rightarrow> string \<Rightarrow> 'w \<Rightarrow> (py_error + pyval) \<times> 'w" where
  "call_anthropic lm prompt w = with_retry (call_anthropic_attempt lm prompt) w"

text \<open>
  The call \<open>generate_context_for_chunk\<close> makes (lines 232 to 235). What \<open>_call_anthropic\<close>
  raises is an instance of \<open>Exception\<close>.
\<close>

definition call_llm ::
  "'w language_model \<Rightarrow> string \<Rightarrow> string \<Rightarrow> 'w \<Rightarrow> ((raised + pyval) \<times> 'w) option" where
  "call_llm lm use_provider prompt w =
     (if use_provider = ''openai'' then call_openai lm prompt w
      else (case call_anthropic lm prompt w of
              (Inl e, w') \<Rightarrow> Some (Inl (Exception e), w')
            | (Inr result, w') \<Rightarrow> Some (Inr result, w')))"

text \<open>\<open>d.get(k, fallback)\<close> on the items of a dict (its keys are distinct).\<close>

definition dict_get :: "(string \<times> pyval) list \<Rightarrow> string \<Rightarrow> pyval \<Rightarrow> pyval" where
  "dict_get kvs k fallback = (case map_of kvs k of Some v \<Rightarrow> v | None \<Rightarrow> fallback)"

text \<open>The elements a \<open>for\<close> loop sees in a value; \<open>TypeError\<close> if it is not iterable.\<close>

fun py_iter :: "pyval \<Rightarrow> py_error + pyval list" where
  "py_iter (PList xs) = Inr xs"
| "py_iter (PStr s) = Inr (map (\<lambda>c. PStr [c]) s)"
| "py_iter (PDict kvs) = Inr (map (\<lambda>kv. PStr (fst kv)) kvs)"
| "py_iter v = Inl TypeError"

text \<open>
  \<open>_create_enhanced_text\<close>: \<open>context.get\<close> raises \<open>AttributeError\<close> unless the parsed
  response is a dict, and the joins raise \<open>TypeError\<close> on a value that is not a sequence of
  strings.
\<close>

definition create_enhanced_text ::
  "'w language_model \<Rightarrow> Chunk \<Rightarrow> pyval \<Rightarrow> py_error + string" where
  "create_enhanced_text lm chunk context =
     (case context of
        PDict kvs \<Rightarrow>
          (case join_value '', '' (dict_get kvs ''key_concepts'' (PList [])) of
             Inl e \<Rightarrow> Inl e
           | Inr concepts \<Rightarrow>
               (case py_iter (dict_get kvs ''questions'' (PList [])) of
                  Inl e \<Rightarrow> Inl e
                | Inr qs \<Rightarrow>
                    (case join_value '', '' (dict_get kvs ''keywords'' (PList [])) of
                       Inl e \<Rightarrow> Inl e
                     | Inr words \<Rightarrow>
                         Inr (''CONTEXTO: '' @
                              py_str lm (dict_get kvs ''contextual_summary'' (PStr [])) @
                              ''\<newline>'' @ ''\<newline>'' @ ''T'' @ [CHR 0xD3] @ ''PICO: '' @
                              py_str lm (dict_get kvs ''topic'' (PStr [])) @
                              ''\<newline>'' @ ''\<newline>'' @ ''CONCEITOS-CHAVE: '' @ concepts @
                              ''\<newline>'' @ ''\<newline>'' @ ''CONTE'' @ [CHR 0xDA] @ ''DO:\<newline>'' @ chunk_text chunk @
                              ''\<newline>'' @ ''\<newline>'' @ ''PERGUNTAS RELACIONADAS:\<newline>'' @
                              py_join ''\<newline>'' (map (\<lambda>q. ''- '' @ py_str lm q) qs) @
                              ''\<newline>'' @ ''\<newline>'' @ ''PALAVRAS-CHAVE: '' @ words))))
      | _ \<Rightarrow> Inl AttributeError)"

text \<open>The rest of the \<open>try\<close> block (lines 238 to 248).\<close>

definition enriched_from_result ::
  "'w language_model \<Rightarrow> Chunk \<Rightarrow> pyval \<Rightarrow> py_error + EnrichedChunk" where
  "enriched_from_result lm chunk result =
     (case create_enhanced_text lm chunk result of
        Inl e \<Rightarrow> Inl e
      | Inr enhanced \<Rightarrow>
          (case result of
             PDict kvs \<Rightarrow>
               Inr \<lparr>original_chunk = chunk,
                    contextual_summary = dict_get kvs ''contextual_summary'' (PStr []),
                    key_concepts = dict_get kvs ''key_concepts'' (PList []),
                    key_words = dict_get kvs ''keywords'' (PList []),
                    topic = dict_get kvs ''topic'' (PStr []),
                    questions = dict_get kvs ''questions'' (PList []),
                    enhanced_text = enhanced\<rparr>
           | _ \<Rightarrow> Inl AttributeError))"

text \<open>The chunk returned by the \<open>except\<close> branch (lines 262 to 270).\<close>

definition fallback_chunk :: "Chunk \<Rightarrow> EnrichedChunk" where
  "fallback_chunk chunk =
     \<lparr>original_chunk = chunk,
      contextual_summary = PStr ''Erro ao gerar contexto'',
      key_concepts = PList [],
      key_words = PList [],
      topic = PStr ''Desconhecido'',
      questions = PList [],
      enhanced_text = chunk_text chunk\<rparr>"

text \<open>The prompt (lines 224 to 228); \<open>doc_context or "..."\<close> replaces \<open>None\<close> and \<open>""\<close>.\<close>

definition enrichment_prompt :: "string \<Rightarrow> Chunk \<Rightarrow> string option \<Rightarrow> string" where
  "enrichment_prompt template chunk doc_context =
     format_prompt template (chunk_text chunk)
       (case doc_context of
          None \<Rightarrow> ''N'' @ [CHR 0xE3] @ ''o especificado''
        | Some d \<Rightarrow> if d = [] then ''N'' @ [CHR 0xE3] @ ''o especificado'' else d)"

text \<open>
  \<open>generate_context_for_chunk\<close>: the handler (line 257) is \<open>except Exception\<close>, so it
  returns the placeholder for an instance of \<open>Exception\<close> and lets anything else pass.
\<close>

definition generate_context_for_chunk ::
  "'w language_model \<Rightarrow> string \<Rightarrow> Chunk \<Rightarrow> string option \<Rightarrow> string \<Rightarrow> 'w \<Rightarrow>
   ((raised + EnrichedChunk) \<times> 'w) option" where
  "generate_context_for_chunk lm use_provider chunk doc_context template w =
     (let prompt = enrichment_prompt template chunk doc_context
      in case call_llm lm use_provider prompt w of
           None \<Rightarrow> None
         | Some (Inl (BaseException b), w') \<Rightarrow> Some (Inl (BaseException b), w')
         | Some (Inl (Exception e), w') \<Rightarrow> Some (Inr (fallback_chunk chunk), w')
         | Some (Inr result, w') \<Rightarrow>
             (case enriched_from_result lm chunk result of
                Inl e \<Rightarrow> Some (Inr (fallback_chunk chunk), w')
              | Inr enriched_chunk \<Rightarrow> Some (Inr enriched_chunk, w')))"

text \<open>
  \<open>generate_contexts_batch\<close>: the chunks one after the other; the loop has no handler,
  so what one chunk raises ends it.
\<close>

fun generate_contexts_batch ::
  "'w language_model \<Rightarrow> string \<Rightarrow> Chunk list \<Rightarrow> string option \<Rightarrow> string \<Rightarrow> 'w \<Rightarrow>
   ((raised + EnrichedChunk list) \<times> 'w) option" where
  "generate_contexts_batch lm use_provider [] doc_context template w = Some (Inr [], w)"
| "generate_contexts_batch lm use_provider (chunk # chunks) doc_context template w =
     (case generate_context_for_chunk lm use_provider chunk doc_context template w of
        None \<Rightarrow> None
      | Some (Inl x, w') \<Rightarrow> Some (Inl x, w')
      | Some (Inr enriched_chunk, w') \<Rightarrow>
          (case generate_contexts_batch lm use_provider chunks doc_context template w' of
             None \<Rightarrow> None
           | Some (Inl x, w'') \<Rightarrow> Some (Inl x, w'')
           | Some (Inr enriched_chunks, w'') \<Rightarrow>
               Some (Inr (enriched_chunk # enriched_chunks), w'')))"

text \<open>
  \<open>generate_document_summary\<close>: only the head and the tail of a long text are sent
  (lines 350 to 353), and any failure of the call gives the fixed sentence (lines 362 to
  391, \<open>summary_call\<close> here; the content of the answer is not evaluated).
\<close>

definition summary_prompt :: "string \<Rightarrow> int \<Rightarrow> string" where
  "summary_prompt text_sample max_length =
     ''Gere um resumo conciso (m'' @ [CHR 0xE1] @ ''ximo '' @ str_int max_length @
     '' caracteres) deste documento,\<newline>'' @
     ''capturando seu prop'' @ [CHR 0xF3] @ ''sito principal, t'' @ [CHR 0xF3] @
     ''picos abordados e contexto geral:\<newline>'' @
     ''\<newline>'' @
     text_sample @
     ''\<newline>'' @ ''\<newline>'' @ ''Responda apenas com o resumo, sem formata'' @
     [CHR 0xE7] @ [CHR 0xE3] @ ''o adicional.''"

definition summary_call ::
  "'w language_model \<Rightarrow> string \<Rightarrow> string \<Rightarrow> int \<Rightarrow> 'w \<Rightarrow> string \<times> 'w" where
  "summary_call lm use_provider text_sample max_length w =
     (case (if use_provider = ''openai''
            then openai_chat lm w system_message_summary (summary_prompt text_sample max_length)
            else anthropic_messages lm w 200 (summary_prompt text_sample max_length)) of
        (Inl e, w') \<Rightarrow> (''Documento sem resumo dispon'' @ [CHR 0xED] @ ''vel'', w')
      | (Inr content, w') \<Rightarrow> (strip content, w'))"

definition generate_document_summary ::
  "'w language_model \<Rightarrow> string \<Rightarrow> string \<Rightarrow> int \<Rightarrow> 'w \<Rightarrow> string \<times> 'w" where
  "generate_document_summary lm use_provider full_text max_length w =
     summary_call lm use_provider
       (if length full_text > 10000
        then py_slice full_text 0 5000 @ ''\<newline>...\<newline>'' @
             py_slice full_text (- 5000) (int (length full_text))
        else full_text)
       max_length w"

section \<open>Indexing orchestrator\<close>

text \<open>
  The Oracle client, the Pinecone index and the clock are external. A document is a dict,
  kept as the list of its items (the keys are distinct).
\<close>

type_synonym document = "(string \<times> pyval) list"

record 'w services =
  count_tokens :: tokenizer
  embeddings_create :: "'w embeddings_api"
  llm :: "'w language_model"
  fetch_document_by_id :: "'w \<Rightarrow> pyval \<Rightarrow> (py_error + document option) \<times> 'w"
  fetch_documents ::
    "'w \<Rightarrow> int option \<Rightarrow> document option \<Rightarrow> (py_error + document list) \<times> 'w"
  count_documents :: "'w \<Rightarrow> document option \<Rightarrow> (py_error + int) \<times> 'w"
  update_document_status ::
    "'w \<Rightarrow> pyval \<Rightarrow> string \<Rightarrow> string option \<Rightarrow> (py_error + unit) \<times> 'w"
  index_upsert :: "'w \<Rightarrow> VectorRecord list \<Rightarrow> string \<Rightarrow> (py_error + int) \<times> 'w"
  now_isoformat :: "'w \<Rightarrow> string \<times> 'w"

text \<open>What \<open>DocumentIndexer.__init__\<close> fixes.\<close>

record DocumentIndexer =
  chunking :: ChunkingSettings
  chunk_strategy :: ChunkStrategy
  use_llm_context :: bool
  llm_provider :: string
  embedding_model :: string

text \<open>The dict \<open>index_document\<close> returns.\<close>

record DocumentStats =
  stats_doc_id :: pyval
  stats_chunks :: nat
  stats_vectors_upserted :: int
  stats_total_tokens :: int
  stats_use_llm_context :: bool

text \<open>
  The dict \<open>index_all_documents\<close> returns; an entry of \<open>errors\<close> is the id of the document
  and the exception whose message is recorded.
\<close>

record BatchStats =
  total_documents :: nat
  successful :: nat
  failed :: nat
  total_chunks :: nat
  total_vectors :: int
  errors :: "(pyval \<times> py_error) list"

text \<open>Python's truth value of a value (\<open>if not text\<close>).\<close>

fun truthy :: "pyval \<Rightarrow> bool" where
  "truthy PNone = False"
| "truthy (PBool b) = b"
| "truthy (PInt i) = (i \<noteq> 0)"
| "truthy (PFloat x) = (x \<noteq> 0)"
| "truthy (PStr s) = (s \<noteq> [])"
| "truthy (PList xs) = (xs \<noteq> [])"
| "truthy (PDict kvs) = (kvs \<noteq> [])"

text \<open>
  \<open>PineconeClient.upsert_batch\<close> with the batch size 100 that \<open>index_document\<close> passes:
  one \<open>upsert\<close> for each slice of 100 vectors, the counts added up.
\<close>

function upsert_batch ::
  "('w \<Rightarrow> VectorRecord list \<Rightarrow> string \<Rightarrow> (py_error + int) \<times> 'w) \<Rightarrow> VectorRecord list \<Rightarrow>
   string \<Rightarrow> int \<Rightarrow> 'w \<Rightarrow> (py_error + int) \<times> 'w" where
  "upsert_batch upsert vectors namespace total_upserted w =
     (if vectors = [] then (Inr total_upserted, w)
      else (case upsert w (take 100 vectors) namespace of
              (Inl e, w') \<Rightarrow> (Inl e, w')
            | (Inr upserted_count, w') \<Rightarrow>
                upsert_batch upsert (drop 100 vectors) namespace
                  (total_upserted + upserted_count) w'))"
  by pat_completeness auto
termination
  by (relation "measure (\<lambda>(u, vectors, ns, t, w). length vectors)") auto

declare upsert_batch.simps [simp del]

text \<open>The \<open>EnrichedChunk\<close> built when the language model is not used (lines 150 to 161).\<close>

definition basic_enriched_chunk :: "Chunk \<Rightarrow> EnrichedChunk" where
  "basic_enriched_chunk chunk =
     \<lparr>original_chunk = chunk,
      contextual_summary = PStr [],
      key_concepts = PList [],
      key_words = PList [],
      topic = PStr [],
      questions = PList [],
      enhanced_text = chunk_text chunk\<rparr>"

text \<open>
  Steps 2 to 7 of \<open>index_document\<close>, once the text of the document is known to be a
  \<open>str\<close>. \<open>None\<close> is a run that never returns (the fixed-size loop, or the evaluation of
  an answer).
\<close>

definition index_text ::
  "'w services \<Rightarrow> DocumentIndexer \<Rightarrow> pyval \<Rightarrow> document \<Rightarrow> string \<Rightarrow> string \<Rightarrow> bool \<Rightarrow>
   string \<Rightarrow> 'w \<Rightarrow> ((raised + DocumentStats) \<times> 'w) option" where
  "index_text svc ix did document text_field namespace update_oracle_status doc_text w =
     (case (if use_llm_context ix
            then (case generate_document_summary (llm svc) (llm_provider ix) doc_text 500 w of
                    (summary, w') \<Rightarrow> (Some summary, w'))
            else (None, w)) of
        (doc_context, w2) \<Rightarrow>
          (case chunk_document (count_tokens svc) (chunking ix) (chunk_strategy ix) doc_text
                  (py_str (llm svc) did)
                  (Some (map_of (filter (\<lambda>kv. fst kv \<noteq> text_field) document))) of
             None \<Rightarrow> None
           | Some chunks \<Rightarrow>
               (case (if use_llm_context ix
                      then generate_contexts_batch (llm svc) (llm_provider ix) chunks
                             doc_context ''default'' w2
                      else Some (Inr (map basic_enriched_chunk chunks), w2)) of
                  None \<Rightarrow> None
                | Some (Inl x, w3) \<Rightarrow> Some (Inl x, w3)
                | Some (Inr enriched_chunks, w3) \<Rightarrow>
                    (case create_vectors_batch (embeddings_create svc) (embedding_model ix)
                            enriched_chunks (use_llm_context ix) w3 of
                       (Inl e, w4) \<Rightarrow> Some (Inl (Exception e), w4)
                     | (Inr vectors, w4) \<Rightarrow>
                         (case upsert_batch (index_upsert svc) vectors namespace 0 w4 of
                            (Inl e, w5) \<Rightarrow> Some (Inl (Exception e), w5)
                          | (Inr total_upserted, w5) \<Rightarrow>
                              (case (if update_oracle_status
                                     then (case now_isoformat svc w5 of
                                             (now, w6) \<Rightarrow>
                                               update_document_status svc w6 did
                                                 ''indexed'' (Some now))
                                     else (Inr (), w5)) of
                                 (Inl e, w7) \<Rightarrow> Some (Inl (Exception e), w7)
                               | (Inr u, w7) \<Rightarrow>
                                   Some (Inr \<lparr>stats_doc_id = did,
                                              stats_chunks = length chunks,
                                              stats_vectors_upserted = total_upserted,
                                              stats_total_tokens =
                                                sum_list (map token_count chunks),
                                              stats_use_llm_context = use_llm_context ix\<rparr>,
                                         w7)))))))"

text \<open>
  What \<open>chunk_document\<close> raises on a text that is a list or a dict. The fixed-size loop
  reaches \<open>text.rfind\<close> or \<open>text[start:end].strip()\<close> in its first round: neither type
  has \<open>rfind\<close>, a list has slices but its slice has no \<open>strip\<close>, and a dict has no slices.
  The other strategies begin with the encoder or with \<open>re.split\<close>, which raise
  \<open>TypeError\<close> on a value that is not a \<open>str\<close>. (Slicing a dict raises \<open>TypeError\<close> up
  to Python 3.11 and \<open>KeyError\<close> from 3.12 on; the model has \<open>TypeError\<close>.)
\<close>

definition chunk_error :: "ChunkStrategy \<Rightarrow> ChunkingSettings \<Rightarrow> pyval \<Rightarrow> py_error" where
  "chunk_error strategy settings v =
     (case strategy of
        FIXED_SIZE \<Rightarrow>
          (case v of
             PDict kvs \<Rightarrow>
               if chunk_size settings < int (length kvs) then AttributeError else TypeError
           | _ \<Rightarrow> AttributeError)
      | _ \<Rightarrow> TypeError)"

text \<open>
  Steps 2 and 3 of \<open>index_document\<close> for a text that is a list or a dict of \<open>n\<close>
  elements. With the language model on, \<open>generate_document_summary\<close> comes first: for
  more than 10000 elements it raises \<open>TypeError\<close> when it builds the sample (a list and a
  \<open>str\<close> cannot be added; a dict has no slices, with the same remark on \<open>KeyError\<close>),
  and otherwise it makes its call with \<open>str\<close> of the value in the prompt. Then
  \<open>chunk_document\<close> raises.
\<close>

definition index_sequence ::
  "'w services \<Rightarrow> DocumentIndexer \<Rightarrow> nat \<Rightarrow> pyval \<Rightarrow> 'w \<Rightarrow>
   ((raised + DocumentStats) \<times> 'w) option" where
  "index_sequence svc ix n v w =
     (if use_llm_context ix
      then (if n > 10000 then Some (Inl (Exception TypeError), w)
            else (case summary_call (llm svc) (llm_provider ix) (py_str (llm svc) v) 500 w of
                    (summary, w') \<Rightarrow>
                      Some (Inl (Exception (chunk_error (chunk_strategy ix) (chunking ix) v)),
                            w')))
      else Some (Inl (Exception (chunk_error (chunk_strategy ix) (chunking ix) v)), w))"

text \<open>
  The \<open>try\<close> block of \<open>index_document\<close>. An empty value of the text field raises
  \<open>ValueError\<close>; a number or \<open>True\<close> makes \<open>len(text)\<close> raise \<open>TypeError\<close> (line 122); a
  list or a dict that is not empty goes on to the summary and the chunker.
\<close>

definition index_document_try ::
  "'w services \<Rightarrow> DocumentIndexer \<Rightarrow> pyval \<Rightarrow> string \<Rightarrow> string \<Rightarrow> bool \<Rightarrow> 'w \<Rightarrow>
   ((raised + DocumentStats) \<times> 'w) option" where
  "index_document_try svc ix did text_field namespace update_oracle_status w =
     (case fetch_document_by_id svc w did of
        (Inl e, w1) \<Rightarrow> Some (Inl (Exception e), w1)
      | (Inr None, w1) \<Rightarrow>
          Some (Inl (Exception (ValueError (''Documento '' @ py_str (llm svc) did @
                                 '' n'' @ [CHR 0xE3] @ ''o encontrado''))), w1)
      | (Inr (Some document), w1) \<Rightarrow>
          (if document = []
           then Some (Inl (Exception (ValueError (''Documento '' @ py_str (llm svc) did @
                                       '' n'' @ [CHR 0xE3] @ ''o encontrado''))), w1)
           else (let text_value = dict_get document text_field (PStr [])
                 in if \<not> truthy text_value
                    then Some (Inl (Exception (ValueError (''Campo '' @ [CHR 0x27] @ text_field @
                                                [CHR 0x27] @ '' vazio ou n'' @ [CHR 0xE3] @ ''o encontrado''))), w1)
                    else (case text_value of
                            PStr doc_text \<Rightarrow>
                              index_text svc ix did document text_field namespace
                                update_oracle_status doc_text w1
                          | PList xs \<Rightarrow> index_sequence svc ix (length xs) text_value w1
                          | PDict kvs \<Rightarrow> index_sequence svc ix (length kvs) text_value w1
                          | _ \<Rightarrow> Some (Inl (Exception TypeError), w1)))))"

text \<open>
  \<open>index_document\<close>: the handler (line 197) is \<open>except Exception\<close>. On an instance of
  \<open>Exception\<close> the status of the document is set to \<open>error\<close> (if status updates are on)
  and the exception is raised again; an exception of the status update itself replaces
  it. Anything else passes the handler, and no status is written.
\<close>

definition index_document ::
  "'w services \<Rightarrow> DocumentIndexer \<Rightarrow> pyval \<Rightarrow> string \<Rightarrow> string \<Rightarrow> bool \<Rightarrow> 'w \<Rightarrow>
   ((raised + DocumentStats) \<times> 'w) option" where
  "index_document svc ix did text_field namespace update_oracle_status w =
     (case index_document_try svc ix did text_field namespace update_oracle_status w of
        None \<Rightarrow> None
      | Some (Inr stats, w') \<Rightarrow> Some (Inr stats, w')
      | Some (Inl (BaseException b), w') \<Rightarrow> Some (Inl (BaseException b), w')
      | Some (Inl (Exception e), w') \<Rightarrow>
          (if update_oracle_status
           then (case update_document_status svc w' did ''error'' None of
                   (Inl e2, w'') \<Rightarrow> Some (Inl (Exception e2), w'')
                 | (Inr u, w'') \<Rightarrow> Some (Inl (Exception e), w''))
           else Some (Inl (Exception e), w')))"

text \<open>
  The loop of \<open>index_all_documents\<close> (lines 254 to 274): \<open>doc.get("id")\<close> is \<open>None\<close> for
  a document without an id. The handler (line 268) is \<open>except Exception\<close>: it counts an
  instance of \<open>Exception\<close> and goes on; anything else ends the loop and the function.
\<close>

fun index_loop ::
  "'w services \<Rightarrow> DocumentIndexer \<Rightarrow> string \<Rightarrow> string \<Rightarrow> bool \<Rightarrow> document list \<Rightarrow>
   BatchStats \<Rightarrow> 'w \<Rightarrow> ((raised + BatchStats) \<times> 'w) option" where
  "index_loop svc ix text_field namespace update_oracle_status [] stats w =
     Some (Inr stats, w)"
| "index_loop svc ix text_field namespace update_oracle_status (doc # docs) stats w =
     (case index_document svc ix (dict_get doc ''id'' PNone) text_field namespace
             update_oracle_status w of
        None \<Rightarrow> None
      | Some (Inr result, w') \<Rightarrow>
          index_loop svc ix text_field namespace update_oracle_status docs
            (stats\<lparr>successful := successful stats + 1,
                   total_chunks := total_chunks stats + stats_chunks result,
                   total_vectors := total_vectors stats + stats_vectors_upserted result\<rparr>) w'
      | Some (Inl (Exception e), w') \<Rightarrow>
          index_loop svc ix text_field namespace update_oracle_status docs
            (stats\<lparr>failed := failed stats + 1,
                   errors := errors stats @ [(dict_get doc ''id'' PNone, e)]\<rparr>) w'
      | Some (Inl (BaseException b), w') \<Rightarrow> Some (Inl (BaseException b), w'))"

text \<open>
  \<open>index_all_documents\<close>: the count and the fetch are outside any \<open>try\<close>, so their
  exceptions leave the function.
\<close>

definition index_all_documents ::
  "'w services \<Rightarrow> DocumentIndexer \<Rightarrow> string \<Rightarrow> string \<Rightarrow> int option \<Rightarrow> document option \<Rightarrow>
   bool \<Rightarrow> 'w \<Rightarrow> ((raised + BatchStats) \<times> 'w) option" where
  "index_all_documents svc ix text_field namespace limit filters update_oracle_status w =
     (case count_documents svc w filters of
        (Inl e, w1) \<Rightarrow> Some (Inl (Exception e), w1)
      | (Inr total_docs, w1) \<Rightarrow>
          (case fetch_documents svc w1 limit filters of
             (Inl e, w2) \<Rightarrow> Some (Inl (Exception e), w2)
           | (Inr documents, w2) \<Rightarrow>
               index_loop svc ix text_field namespace update_oracle_status documents
                 \<lparr>total_documents = length documents, successful = 0, failed = 0,
                  total_chunks = 0, total_vectors = 0, errors = []\<rparr> w2))"

section \<open>Predicates of the statements\<close>

text \<open>
  The contract of the embedding service, for a relation \<open>good\<close> between a text and an
  acceptable embedding of it: a response to a list of texts holds one acceptable embedding
  for each text, in order, and the first embedding of a response to one text is acceptable.
\<close>

definition answers ::
  "'w embeddings_api \<Rightarrow> string \<Rightarrow> (string \<Rightarrow> real list \<Rightarrow> bool) \<Rightarrow> bool" where
  "answers api model good \<longleftrightarrow>
     (\<forall>w ts vs w'. api w model (Texts ts) = (Inr vs, w') \<longrightarrow> list_all2 good ts vs) \<and>
     (\<forall>w t v vs w'. api w model (OneText t) = (Inr (v # vs), w') \<longrightarrow> good t v)"

text \<open>
  The run of \<open>generate_embeddings_batch\<close>, position by position. The texts of group \<open>i\<close>
  are the \<open>i\<close>-th \<open>batch_size\<close> texts; the state of the world when the run reaches group
  \<open>i\<close> is the state after the groups before it; and when the fallback of a group, begun
  in the state \<open>w'\<close> that the failed group call left, reaches its item \<open>j\<close>, the state is
  the one after the items before it.
\<close>

definition group_texts :: "string list \<Rightarrow> int \<Rightarrow> nat \<Rightarrow> string list" where
  "group_texts texts batch_size i = take (nat batch_size) (drop (i * nat batch_size) texts)"

definition state_before_group ::
  "'w embeddings_api \<Rightarrow> string \<Rightarrow> string list \<Rightarrow> int \<Rightarrow> 'w \<Rightarrow> nat \<Rightarrow> 'w" where
  "state_before_group api model texts batch_size w i =
     snd (batch_loop api model texts batch_size [0..<i] [] w)"

definition state_before_item ::
  "'w embeddings_api \<Rightarrow> string \<Rightarrow> string list \<Rightarrow> 'w \<Rightarrow> nat \<Rightarrow> 'w" where
  "state_before_item api model ts w' j = snd (embed_individually api model (take j ts) w')"

text \<open>
  What the result must hold at the position \<open>k\<close> of a text. If the call for the group of
  the text returns, it is the embedding at the position of the text in that response.
  If the group call raises, the text is embedded on its own, with the retries of
  \<open>generate_embedding\<close>: the result is the embedding this returns, and the zero vector of
  the configured dimension if this raises too.
\<close>

definition placed ::
  "'w embeddings_api \<Rightarrow> string \<Rightarrow> string list \<Rightarrow> int \<Rightarrow> 'w \<Rightarrow> nat \<Rightarrow> real list \<Rightarrow> bool" where
  "placed api model texts batch_size w k v \<longleftrightarrow>
     (let i = k div nat batch_size;
          j = k mod nat batch_size;
          ts = group_texts texts batch_size i
      in case api (state_before_group api model texts batch_size w i) model
                (Texts (map clean_text ts)) of
           (Inr vs, w') \<Rightarrow> v = vs ! j
         | (Inl e, w') \<Rightarrow>
             (case generate_embedding api model (texts ! k)
                     (state_before_item api model ts w' j) of
                (Inr embedding, w'') \<Rightarrow> v = embedding
              | (Inl e', w'') \<Rightarrow> v = zero_vector model))"

text \<open>
  The names of the eleven entries that every record has, whatever the chunk inherited.
\<close>

definition fixed_names :: "string list" where
  "fixed_names =
     [''doc_id'', ''chunk_index'', ''start_char'', ''end_char'', ''token_count'', ''text'',
      ''contextual_summary'', ''topic'', ''key_concepts'', ''keywords'', ''questions'']"

text \<open>
  What the metadata \<open>md\<close> of a record must hold at the key \<open>k\<close>, given what the chunk
  inherited at that key and the fixed entries: an inherited \<open>str\<close>, \<open>int\<close>, \<open>float\<close> or
  \<open>bool\<close> is there with its value; an inherited \<open>None\<close>, list or dict is not copied, and
  neither flattened; a key with nothing to copy has what the fixed entries give it.
\<close>

definition copied_at ::
  "(string \<rightharpoonup> pyval) \<Rightarrow> (string \<rightharpoonup> pyval) \<Rightarrow> (string \<rightharpoonup> pyval) \<Rightarrow> string \<Rightarrow> bool" where
  "copied_at inherited fixed md k \<longleftrightarrow>
     (case inherited k of
        Some (PStr s) \<Rightarrow> md k = Some (PStr s)
      | Some (PInt i) \<Rightarrow> md k = Some (PInt i)
      | Some (PFloat x) \<Rightarrow> md k = Some (PFloat x)
      | Some (PBool b) \<Rightarrow> md k = Some (PBool b)
      | Some PNone \<Rightarrow> md k = fixed k
      | Some (PList xs) \<Rightarrow> md k = fixed k
      | Some (PDict kvs) \<Rightarrow> md k = fixed k
      | None \<Rightarrow> md k = fixed k)"

text \<open>
  The metadata of a record, key by key; the fixed entries are those of the eleven names,
  so that a pair that is not copied leaves any other key absent.
\<close>

definition scalars_copied :: "EnrichedChunk \<Rightarrow> VectorRecord \<Rightarrow> bool" where
  "scalars_copied ec r \<longleftrightarrow>
     (\<exists>fixed. annotation_fields ec = Inr fixed \<and> dom fixed = set fixed_names \<and>
        (\<forall>k. copied_at (metadata (original_chunk ec)) fixed (vector_metadata r) k))"

text \<open>The id a record must have.\<close>

definition id_of_chunk :: "EnrichedChunk \<Rightarrow> string" where
  "id_of_chunk ec =
     make_vector_id (doc_id (original_chunk ec)) (chunk_index (original_chunk ec))"

section \<open>Concrete instances for evaluation\<close>

text \<open>
  A stand-in for the encoder, for evaluating examples: one token for each maximal run of
  newlines and one for each maximal run of other non-blank characters, a blank being
  absorbed by the word that follows it. It is not the encoder the program loads
  (\<open>cl100k_base\<close>) and differs from it on most texts: \<open>worl\<close> and \<open>rld\<close> are one token
  each here and two for the encoder. The two agree on the texts whose token count a
  statement below shows or depends on: the empty text (0), \<open>a\<close>, \<open>b\<close>, \<open>hello\<close> and
  \<open>world\<close> (1), \<open>hello world\<close> (2), and \<open>a\<close> and \<open>b\<close> as two paragraphs and \<open>hello world\<close>
  after a blank line (3). The other runs use a count only to compare it with a budget of
  1000 tokens, or not at all.
\<close>

datatype run = Gap | Newlines | Word

fun run_tokens :: "run \<Rightarrow> string \<Rightarrow> nat" where
  "run_tokens r [] = 0"
| "run_tokens r (c # cs) =
     (if c = CHR 0x0A then (if r = Newlines then 0 else 1) + run_tokens Newlines cs
      else if c = CHR '' '' then run_tokens Gap cs
      else (if r = Word then 0 else 1) + run_tokens Word cs)"

definition run_count_tokens :: tokenizer where
  "run_count_tokens s = run_tokens Gap s"

text \<open>A chunk whose inherited metadata has a string, a number, a list and \<open>None\<close>.\<close>

definition sample_chunk :: Chunk where
  "sample_chunk =
     \<lparr>chunk_text = ''hello'', chunk_index = 0, doc_id = ''doc'', start_char = 0,
      end_char = 5, token_count = 1,
      metadata = [''strategy'' \<mapsto> PStr ''recursive'', ''title'' \<mapsto> PStr ''Guide'',
                  ''pages'' \<mapsto> PInt 3, ''tags'' \<mapsto> PList [PStr ''a''],
                  ''owner'' \<mapsto> PNone]\<rparr>"

text \<open>
  A chunk whose inherited metadata has a value of each kind: a string, an integer, a
  float, the two booleans, \<open>None\<close>, a list and a dict; and the record the code builds for
  it without enrichment.
\<close>

definition mixed_chunk :: Chunk where
  "mixed_chunk =
     \<lparr>chunk_text = ''hello'', chunk_index = 2, doc_id = ''doc'', start_char = 0,
      end_char = 5, token_count = 1,
      metadata = [''strategy'' \<mapsto> PStr ''recursive'', ''title'' \<mapsto> PStr ''Guide'',
                  ''pages'' \<mapsto> PInt 3, ''score'' \<mapsto> PFloat (1 / 2),
                  ''public'' \<mapsto> PBool True, ''draft'' \<mapsto> PBool False,
                  ''owner'' \<mapsto> PNone, ''tags'' \<mapsto> PList [PStr ''a'', PStr ''b''],
                  ''source'' \<mapsto> PDict [(''table'', PStr ''docs'')]]\<rparr>"

definition mixed_record :: VectorRecord where
  "mixed_record =
     \<lparr>vector_id = ''doc_2'',
      vector_values = [1, 2],
      vector_metadata =
        [''doc_id'' \<mapsto> PStr ''doc'', ''chunk_index'' \<mapsto> PInt 2, ''start_char'' \<mapsto> PInt 0,
         ''end_char'' \<mapsto> PInt 5, ''token_count'' \<mapsto> PInt 1, ''text'' \<mapsto> PStr ''hello'',
         ''contextual_summary'' \<mapsto> PStr [], ''topic'' \<mapsto> PStr [],
         ''key_concepts'' \<mapsto> PStr [], ''keywords'' \<mapsto> PStr [], ''questions'' \<mapsto> PStr [],
         ''strategy'' \<mapsto> PStr ''recursive'', ''title'' \<mapsto> PStr ''Guide'',
         ''pages'' \<mapsto> PInt 3, ''score'' \<mapsto> PFloat (1 / 2),
         ''public'' \<mapsto> PBool True, ''draft'' \<mapsto> PBool False]\<rparr>"

text \<open>
  An embedding service that answers every text with the vector \<open>[1, 2]\<close>; the state of
  the world counts the calls.
\<close>

definition pair_api :: "nat embeddings_api" where
  "pair_api w model inp =
     (case inp of
        OneText s \<Rightarrow> (Inr [[1, 2]], Suc w)
      | Texts ts \<Rightarrow> (Inr (map (\<lambda>s. [1, 2]) ts), Suc w))"

text \<open>
  An embedding service that raises on the text \<open>bad\<close>, alone or in a group, and answers
  any other text with a vector that holds its length.
\<close>

definition length_vector :: "string \<Rightarrow> real list" where
  "length_vector s = [real (length s)]"

definition is_length_vector :: "string \<Rightarrow> real list \<Rightarrow> bool" where
  "is_length_vector s v \<longleftrightarrow> v = length_vector s"

definition flaky_api :: "nat embeddings_api" where
  "flaky_api w model inp =
     (case inp of
        OneText s \<Rightarrow>
          (if s = ''bad'' then Inl (ServiceError ''rejected'') else Inr [length_vector s],
           Suc w)
      | Texts ts \<Rightarrow>
          (if ''bad'' \<in> set ts then Inl (ServiceError ''rejected'')
           else Inr (map length_vector ts),
           Suc w))"

text \<open>
  An embedding service that answers a group of texts with a single embedding, whatever
  the number of texts.
\<close>

definition short_api :: "nat embeddings_api" where
  "short_api w model inp = (Inr [[1, 2]], Suc w)"

text \<open>
  250 texts that are all different: the text at position 150 is \<open>bad\<close>, and the text at
  any other position \<open>k\<close> is \<open>k + 1\<close> times the letter \<open>x\<close>.
\<close>

definition numbered_texts :: "string list" where
  "numbered_texts =
     map (\<lambda>k. if k = 150 then ''bad'' else replicate (Suc k) CHR ''x'') [0..<250]"

text \<open>The sample chunk without enrichment, and the record the code builds for it.\<close>

definition sample_enriched :: EnrichedChunk where
  "sample_enriched = basic_enriched_chunk sample_chunk"

definition sample_record :: VectorRecord where
  "sample_record =
     \<lparr>vector_id = ''doc_0'',
      vector_values = [1, 2],
      vector_metadata =
        [''doc_id'' \<mapsto> PStr ''doc'', ''chunk_index'' \<mapsto> PInt 0, ''start_char'' \<mapsto> PInt 0,
         ''end_char'' \<mapsto> PInt 5, ''token_count'' \<mapsto> PInt 1, ''text'' \<mapsto> PStr ''hello'',
         ''contextual_summary'' \<mapsto> PStr [], ''topic'' \<mapsto> PStr [],
         ''key_concepts'' \<mapsto> PStr [], ''keywords'' \<mapsto> PStr [], ''questions'' \<mapsto> PStr [],
         ''strategy'' \<mapsto> PStr ''recursive'', ''title'' \<mapsto> PStr ''Guide'',
         ''pages'' \<mapsto> PInt 3]\<rparr>"

text \<open>
  A language model for the examples. Asked for a summary it answers \<open>A summary\<close>. Asked
  to analyse a text, it answers with the empty object \<open>{}\<close>, except for a text that
  contains the word \<open>goodbye\<close>, where its answer is the expression \<open>exit_answer\<close>. \<open>eval\<close>
  of \<open>{}\<close> is the empty dict, and \<open>eval\<close> of \<open>exit_answer\<close> calls \<open>sys.exit\<close>, which raises
  \<open>SystemExit\<close>; \<open>json.loads\<close> of \<open>{}\<close> is the empty dict. (The runs below give \<open>py_eval\<close>
  these two texts only and \<open>json_loads\<close> the first only; on any other text the instance
  raises, which need not be what Python does.) \<open>show_value\<close> is \<open>str\<close> on a string and on
  an integer, the only values the runs apply it to. The state of the world counts the
  calls of the services.
\<close>

definition exit_answer :: string where
  \<open>exit_answer = ''__import__("sys").exit()''\<close>

definition show_value :: "pyval \<Rightarrow> string" where
  "show_value v = (case v of PStr s \<Rightarrow> s | PInt i \<Rightarrow> str_int i | _ \<Rightarrow> ''?'')"

definition demo_lm :: "nat language_model" where
  "demo_lm =
     \<lparr>openai_chat =
        (\<lambda>w s q. (Inr (if s = system_message_summary then ''A summary''
                        else if sublist ''goodbye'' q then exit_answer else ''{}''),
                   Suc w)),
      anthropic_messages =
        (\<lambda>w n q. (Inr (if n = 200 then ''A summary''
                        else if sublist ''goodbye'' q then exit_answer else ''{}''),
                   Suc w)),
      py_eval =
        (\<lambda>w s. Some (if s = ''{}'' then Inr (PDict [])
                      else if s = exit_answer then Inl (BaseException ''SystemExit'')
                      else Inl (Exception (ValueError ''invalid syntax'')),
                      w)),
      json_loads =
        (\<lambda>s. if s = ''{}'' then Inr (PDict []) else Inl (ValueError ''Expecting value'')),
      py_str = show_value\<rparr>"

text \<open>A chunk whose text makes the language model answer with \<open>exit_answer\<close>.\<close>

definition farewell_chunk :: Chunk where
  "farewell_chunk =
     \<lparr>chunk_text = ''goodbye'', chunk_index = 1, doc_id = ''doc'', start_char = 6,
      end_char = 13, token_count = 2,
      metadata = [''strategy'' \<mapsto> PStr ''recursive'']\<rparr>"

text \<open>
  A source of five documents, with the ids 1 to 5, in which the fetch of document 3
  raises; every other document has the text \<open>hello world\<close>. The vector store accepts
  every record.
\<close>

definition demo_documents :: "document list" where
  "demo_documents =
     [[(''id'', PInt 1)], [(''id'', PInt 2)], [(''id'', PInt 3)], [(''id'', PInt 4)],
      [(''id'', PInt 5)]]"

definition demo_services :: "nat services" where
  "demo_services =
     \<lparr>count_tokens = run_count_tokens,
      embeddings_create = pair_api,
      llm = demo_lm,
      fetch_document_by_id =
        (\<lambda>w i. (if i = PInt 3 then Inl (ServiceError ''connection lost'')
                 else Inr (Some [(''id'', i), (''content'', PStr ''hello world'')]),
                 Suc w)),
      fetch_documents = (\<lambda>w limit filters. (Inr demo_documents, Suc w)),
      count_documents = (\<lambda>w filters. (Inr 5, Suc w)),
      update_document_status = (\<lambda>w i status indexed_at. (Inr (), Suc w)),
      index_upsert = (\<lambda>w vectors namespace. (Inr (int (length vectors)), Suc w)),
      now_isoformat = (\<lambda>w. (''2025-01-01T00:00:00'', w))\<rparr>"

definition demo_indexer :: DocumentIndexer where
  "demo_indexer =
     \<lparr>chunking = \<lparr>chunk_size = 1000, chunk_overlap = 200, max_chunk_size = 2000\<rparr>,
      chunk_strategy = RECURSIVE,
      use_llm_context = False,
      llm_provider = ''openai'',
      embedding_model = ''text-embedding-3-large''\<rparr>"

text \<open>
  The same source with every fetch answered, where document 3 has the text \<open>goodbye\<close>;
  and the indexer as \<open>DocumentIndexer()\<close> sets it up, with the language model on.
\<close>

definition farewell_services :: "nat services" where
  "farewell_services =
     demo_services
       \<lparr>fetch_document_by_id :=
          (\<lambda>w i. (Inr (Some [(''id'', i),
                              (''content'',
                               PStr (if i = PInt 3 then ''goodbye'' else ''hello world''))]),
                   Suc w))\<rparr>"

definition llm_indexer :: DocumentIndexer where
  "llm_indexer = demo_indexer\<lparr>use_llm_context := True\<rparr>"

section \<open>The fixed-size strategy: progress and termination\<close>

lemma window_end_ge: "0 \<le> chunk_size settings \<Longrightarrow> start \<le> window_end settings doc_text start"
  by (simp add: window_end_def Let_def)

lemma next_start_ge: "0 \<le> chunk_size settings \<Longrightarrow> start \<le> next_start settings doc_text start"
  using window_end_ge [of settings start doc_text] by (simp add: next_start_def Let_def)

lemma next_start_gt:
  assumes "1 \<le> chunk_size settings \<or> chunk_overlap settings < chunk_size settings"
  shows "start < next_start settings doc_text start"
  using assms by (auto simp: next_start_def window_end_def Let_def)

lemma fixed_loop_returns:
  assumes progress: "\<And>s. s < next_start settings doc_text s"
  shows "\<exists>ys. fixed_loop tok settings doc_text did md start idx chunks = Some ys"
proof (induction "nat (int (length doc_text) - start)" arbitrary: start idx chunks rule: less_induct)
  case less
  show ?case
  proof (cases "start < int (length doc_text)")
    case False
    then show ?thesis by (subst fixed_loop.simps) simp
  next
    case True
    obtain chunks' idx' where e: "fixed_emit tok settings doc_text did md start idx chunks = (chunks', idx')"
      by (cases "fixed_emit tok settings doc_text did md start idx chunks")
    have "nat (int (length doc_text) - next_start settings doc_text start) < nat (int (length doc_text) - start)"
      using True progress [of start] by linarith
    from less [OF this] obtain ys where
      "fixed_loop tok settings doc_text did md (next_start settings doc_text start) idx' chunks' = Some ys"
      by blast
    then show ?thesis using True e by (subst fixed_loop.simps) simp
  qed
qed

lemma fixed_loop_stuck_aux:
  "fixed_loop tok settings doc_text did md start idx chunks = Some ys \<Longrightarrow>
   \<not> (start < int (length doc_text) \<and> next_start settings doc_text start = start)"
proof (rule fixed_loop.raw_induct [where P = "\<lambda>tok settings doc_text did md start idx chunks ys.
         \<not> (start < int (length doc_text) \<and> next_start settings doc_text start = start)"])
  fix f :: "tokenizer \<Rightarrow> ChunkingSettings \<Rightarrow> string \<Rightarrow> string \<Rightarrow> (string \<rightharpoonup> pyval) \<Rightarrow>
            int \<Rightarrow> int \<Rightarrow> Chunk list \<Rightarrow> Chunk list option"
    and tok settings doc_text did md start idx chunks ys
  assume ih: "\<And>tok settings doc_text did md start idx chunks ys.
                f tok settings doc_text did md start idx chunks = Some ys \<Longrightarrow>
                \<not> (start < int (length doc_text) \<and> next_start settings doc_text start = start)"
    and body: "(if start < int (length doc_text)
                then (case fixed_emit tok settings doc_text did md start idx chunks of
                        (chunks', idx') \<Rightarrow>
                          f tok settings doc_text did md (next_start settings doc_text start) idx' chunks')
                else Some chunks) = Some ys"
  show "\<not> (start < int (length doc_text) \<and> next_start settings doc_text start = start)"
  proof
    assume stuck: "start < int (length doc_text) \<and> next_start settings doc_text start = start"
    obtain chunks' idx' where e: "fixed_emit tok settings doc_text did md start idx chunks = (chunks', idx')"
      by (cases "fixed_emit tok settings doc_text did md start idx chunks")
    from body stuck e have "f tok settings doc_text did md start idx' chunks' = Some ys" by simp
    from ih [OF this] stuck show False by simp
  qed
qed

lemma fixed_loop_stuck:
  assumes "start < int (length doc_text)" and "next_start settings doc_text start = start"
  shows "fixed_loop tok settings doc_text did md start idx chunks = None"
proof (cases "fixed_loop tok settings doc_text did md start idx chunks")
  case None then show ?thesis .
next
  case (Some ys)
  from fixed_loop_stuck_aux [OF this] assms show ?thesis by simp
qed


text \<open>
  C8 as stated fails for some configurations. With \<open>chunk_size = 0\<close> and
  \<open>chunk_overlap = 0\<close> the window that starts at 0 in the text \<open>a\<close> ends at 0, the next
  start is 0 again, and the fixed-size strategy never returns.
\<close>

theorem fixed_size_stuck_counterexample:
  "next_start \<lparr>chunk_size = 0, chunk_overlap = 0, max_chunk_size = 2000\<rparr> ''a'' 0 = 0 \<and>
   chunk_document run_count_tokens
     \<lparr>chunk_size = 0, chunk_overlap = 0, max_chunk_size = 2000\<rparr>
     FIXED_SIZE ''a'' ''doc'' None = None"
proof -
  have stuck: "next_start \<lparr>chunk_size = 0, chunk_overlap = 0, max_chunk_size = 2000\<rparr> ''a'' 0 = 0"
    by (simp add: next_start_def window_end_def py_rfind_char_def py_slice_def py_norm_def)
  have "(0::int) < int (length ''a'')" by simp
  from fixed_loop_stuck [OF this stuck] stuck show ?thesis
    by (simp add: chunk_document_def chunk_fixed_size_def)
qed

text \<open>
  C8, amended: for every text and every configuration with \<open>chunk_size \<ge> 1\<close> or
  \<open>chunk_overlap < chunk_size\<close>, the start of the window strictly increases on every
  iteration (the next start is \<open>end - overlap\<close> when that exceeds the current start and
  \<open>end\<close> otherwise), and the fixed-size strategy returns.
\<close>

theorem fixed_size_progress:
  assumes "1 \<le> chunk_size settings \<or> chunk_overlap settings < chunk_size settings"
  shows "start < next_start settings doc_text start \<and>
         next_start settings doc_text start =
           (if window_end settings doc_text start - chunk_overlap settings > start
            then window_end settings doc_text start - chunk_overlap settings
            else window_end settings doc_text start) \<and>
         (\<exists>chunks. chunk_fixed_size tok settings doc_text did md = Some chunks)"
proof -
  have progress: "s < next_start settings doc_text s" for s
    using assms by (rule next_start_gt)
  have "\<exists>chunks. fixed_loop tok settings doc_text did md 0 0 [] = Some chunks"
    using progress by (rule fixed_loop_returns)
  with progress [of start] show ?thesis
    by (simp add: chunk_fixed_size_def next_start_def Let_def)
qed

text \<open>C8, amended, at a concrete input: windows of 5 characters with an overlap of 2.\<close>

theorem fixed_size_progress_witness:
  "(1 \<le> chunk_size \<lparr>chunk_size = 5, chunk_overlap = 2, max_chunk_size = 2000\<rparr> \<or>
    chunk_overlap \<lparr>chunk_size = 5, chunk_overlap = 2, max_chunk_size = 2000\<rparr>
      < chunk_size \<lparr>chunk_size = 5, chunk_overlap = 2, max_chunk_size = 2000\<rparr>) \<and>
   0 < next_start \<lparr>chunk_size = 5, chunk_overlap = 2, max_chunk_size = 2000\<rparr>
         ''hello world'' 0 \<and>
   (\<exists>chunks. chunk_fixed_size run_count_tokens
                \<lparr>chunk_size = 5, chunk_overlap = 2, max_chunk_size = 2000\<rparr>
                ''hello world'' ''doc'' Map.empty = Some chunks)"
  using fixed_size_progress
    [where settings = "\<lparr>chunk_size = 5, chunk_overlap = 2, max_chunk_size = 2000\<rparr>"
       and start = 0 and doc_text = "''hello world''" and tok = run_count_tokens
       and did = "''doc''" and md = Map.empty]
  by simp

section \<open>Every emitted chunk has ordered offsets and a visible text\<close>

lemma strip_Nil [simp]: "strip [] = []"
  by (simp add: strip_def)

lemma strip_visible: "strip s \<noteq> [] \<Longrightarrow> visible (strip s)"
proof -
  assume ne: "strip s \<noteq> []"
  define t where "t = dropWhile py_isspace s"
  have "strip s @ rev (takeWhile py_isspace (rev t)) =
          rev (takeWhile py_isspace (rev t) @ dropWhile py_isspace (rev t))"
    by (simp only: strip_def t_def rev_append)
  also have "\<dots> = t"
    by (simp only: takeWhile_dropWhile_id rev_rev_ident)
  finally have t: "t = strip s @ rev (takeWhile py_isspace (rev t))"
    by (rule sym)
  from t have "hd t = hd (strip s @ rev (takeWhile py_isspace (rev t)))"
    by (rule arg_cong)
  with ne have "hd t = hd (strip s)" by simp
  moreover from t ne have "t \<noteq> []" by (metis append_is_Nil_conv)
  moreover have "t \<noteq> [] \<Longrightarrow> \<not> py_isspace (hd t)"
    unfolding t_def by (rule hd_dropWhile)
  ultimately show ?thesis using ne by (simp add: visible_def)
qed

lemma visible_nonspace: "visible s \<Longrightarrow> \<exists>c\<in>set s. \<not> py_isspace c"
  by (cases s) (auto simp: visible_def)

lemma py_slice_nonempty:
  assumes "py_slice xs a b \<noteq> []" and "0 \<le> a" and "0 \<le> b"
  shows "a < b"
proof (rule ccontr)
  assume "\<not> a < b"
  with assms(2,3) have "py_norm (int (length xs)) b \<le> py_norm (int (length xs)) a"
    by (simp add: py_norm_def)
  then have "py_slice xs a b = []" by (simp add: py_slice_def Let_def)
  with assms(1) show False by simp
qed

lemma fixed_emit_ok:
  assumes "0 \<le> chunk_size settings" and "0 \<le> start"
    and "\<forall>c\<in>set chunks. chunk_ok c"
    and "fixed_emit tok settings doc_text did md start idx chunks = (chunks', idx')"
  shows "\<forall>c\<in>set chunks'. chunk_ok c"
proof (cases "strip (py_slice doc_text start (window_end settings doc_text start)) = []")
  case True
  with assms(3,4) show ?thesis by (simp add: fixed_emit_def Let_def)
next
  case False
  then have "py_slice doc_text start (window_end settings doc_text start) \<noteq> []" by auto
  moreover have "0 \<le> window_end settings doc_text start"
    using window_end_ge [OF assms(1), of start doc_text] assms(2) by simp
  ultimately have "start < window_end settings doc_text start"
    using assms(2) by (intro py_slice_nonempty)
  with False assms(3,4) strip_visible [OF False] show ?thesis
    by (auto simp: fixed_emit_def Let_def chunk_ok_def)
qed

lemma fixed_loop_ok:
  "fixed_loop tok settings doc_text did md start idx chunks = Some ys \<Longrightarrow>
   0 \<le> chunk_size settings \<longrightarrow> 0 \<le> start \<longrightarrow> (\<forall>c\<in>set chunks. chunk_ok c) \<longrightarrow>
     (\<forall>c\<in>set ys. chunk_ok c)"
proof (rule fixed_loop.raw_induct [where P = "\<lambda>tok settings doc_text did md start idx chunks ys.
         0 \<le> chunk_size settings \<longrightarrow> 0 \<le> start \<longrightarrow> (\<forall>c\<in>set chunks. chunk_ok c) \<longrightarrow>
           (\<forall>c\<in>set ys. chunk_ok c)"])
  fix f :: "tokenizer \<Rightarrow> ChunkingSettings \<Rightarrow> string \<Rightarrow> string \<Rightarrow> (string \<rightharpoonup> pyval) \<Rightarrow>
            int \<Rightarrow> int \<Rightarrow> Chunk list \<Rightarrow> Chunk list option"
    and tok settings doc_text did md start idx chunks ys
  assume ih: "\<And>tok settings doc_text did md start idx chunks ys.
                f tok settings doc_text did md start idx chunks = Some ys \<Longrightarrow>
                0 \<le> chunk_size settings \<longrightarrow> 0 \<le> start \<longrightarrow> (\<forall>c\<in>set chunks. chunk_ok c) \<longrightarrow>
                  (\<forall>c\<in>set ys. chunk_ok c)"
    and body: "(if start < int (length doc_text)
                then (case fixed_emit tok settings doc_text did md start idx chunks of
                        (chunks', idx') \<Rightarrow>
                          f tok settings doc_text did md (next_start settings doc_text start) idx' chunks')
                else Some chunks) = Some ys"
  show "0 \<le> chunk_size settings \<longrightarrow> 0 \<le> start \<longrightarrow> (\<forall>c\<in>set chunks. chunk_ok c) \<longrightarrow>
          (\<forall>c\<in>set ys. chunk_ok c)"
  proof (intro impI)
    assume size: "0 \<le> chunk_size settings" and start: "0 \<le> start"
      and inv: "\<forall>c\<in>set chunks. chunk_ok c"
    show "\<forall>c\<in>set ys. chunk_ok c"
    proof (cases "start < int (length doc_text)")
      case False
      with body inv show ?thesis by simp
    next
      case True
      obtain chunks' idx' where
        e: "fixed_emit tok settings doc_text did md start idx chunks = (chunks', idx')"
        by (cases "fixed_emit tok settings doc_text did md start idx chunks")
      from body True e have
        "f tok settings doc_text did md (next_start settings doc_text start) idx' chunks' = Some ys"
        by simp
      moreover have "0 \<le> next_start settings doc_text start"
        using next_start_ge [OF size, of start doc_text] start by simp
      moreover note fixed_emit_ok [OF size start inv e]
      ultimately show ?thesis using ih size by blast
    qed
  qed
qed

lemma chunk_fixed_size_ok:
  "0 \<le> chunk_size settings \<Longrightarrow> chunk_fixed_size tok settings doc_text did md = Some ys \<Longrightarrow>
   \<forall>c\<in>set ys. chunk_ok c"
  using fixed_loop_ok [of tok settings doc_text did md 0 0 "[]" ys]
  by (simp add: chunk_fixed_size_def)

lemma recursive_emit_ok:
  "\<forall>c\<in>set chunks. chunk_ok c \<Longrightarrow>
   \<forall>c\<in>set (recursive_emit tok doc_text did md i pieces pos chunks). chunk_ok c"
proof (induction pieces arbitrary: i pos chunks)
  case Nil
  then show ?case by simp
next
  case (Cons piece pieces)
  show ?case
  proof (cases "strip piece = []")
    case True
    with Cons show ?thesis by simp
  next
    case False
    have "\<forall>c\<in>set (chunks @ [\<lparr>chunk_text = strip piece, chunk_index = i, doc_id = did,
              start_char = py_find doc_text (strip piece) pos,
              end_char = py_find doc_text (strip piece) pos + int (length (strip piece)),
              token_count = int (tok (strip piece)),
              metadata = md(''strategy'' \<mapsto> PStr ''recursive'')\<rparr>]). chunk_ok c"
      using Cons.prems strip_visible [OF False] False by (auto simp: chunk_ok_def)
    from Cons.IH [OF this] False show ?thesis by (simp add: Let_def)
  qed
qed

lemma chunk_recursive_ok: "\<forall>c\<in>set (chunk_recursive tok settings doc_text did md). chunk_ok c"
  unfolding chunk_recursive_def by (rule recursive_emit_ok) simp

lemma words_scan_visible:
  "\<forall>c\<in>set acc. \<not> py_isspace c \<Longrightarrow> \<forall>w\<in>set (words_scan acc s). visible w"
proof (induction s arbitrary: acc)
  case Nil
  then show ?case by (cases acc rule: rev_cases) (auto simp: visible_def)
next
  case (Cons c cs)
  have empty: "\<forall>w\<in>set (words_scan [] cs). visible w"
    by (rule Cons.IH) simp
  show ?case
  proof (cases "py_isspace c")
    case True
    have "acc \<noteq> [] \<Longrightarrow> visible (rev acc)"
      using Cons.prems by (cases acc rule: rev_cases) (auto simp: visible_def)
    with True empty show ?thesis by auto
  next
    case False
    with Cons.prems have "\<forall>x\<in>set (c # acc). \<not> py_isspace x" by simp
    from Cons.IH [OF this] False show ?thesis by simp
  qed
qed

lemma py_words_visible: "\<forall>w\<in>set (py_words s). visible w"
  unfolding py_words_def by (rule words_scan_visible) simp

lemma py_join_visible:
  "parts \<noteq> [] \<Longrightarrow> visible (hd parts) \<Longrightarrow> visible (py_join sep parts)"
  by (cases "(sep, parts)" rule: py_join.cases) (auto simp: visible_def)

lemma sentence_chunk_ok:
  assumes "parts \<noteq> []" and "\<forall>p\<in>set parts. visible p"
    and "sentence_chunk doc_text did md parts tokens idx pos = (c, pos')"
  shows "chunk_ok c"
proof -
  from assms(1,2) have "visible (py_join '' '' parts)"
    by (intro py_join_visible) auto
  with assms(3) show ?thesis
    by (auto simp: sentence_chunk_def Let_def chunk_ok_def visible_def)
qed

lemma words_loop_ok:
  assumes "\<forall>c\<in>set chunks. chunk_ok c" and "\<forall>w\<in>set temp. visible w"
    and "\<forall>w\<in>set words. visible w"
    and "words_loop tok budget doc_text did md words chunks idx pos temp ttoks =
           (chunks', idx', pos', temp', ttoks')"
  shows "(\<forall>c\<in>set chunks'. chunk_ok c) \<and> (\<forall>w\<in>set temp'. visible w)"
  using assms
proof (induction words arbitrary: chunks idx pos temp ttoks)
  case Nil
  then show ?case by simp
next
  case (Cons word words)
  from Cons.prems(3) have w: "visible word" and ws: "\<forall>w\<in>set words. visible w" by simp_all
  show ?case
  proof (cases "ttoks + int (tok word) > budget")
    case False
    from Cons.prems(2) w have "\<forall>x\<in>set (temp @ [word]). visible x" by simp
    from Cons.IH [OF Cons.prems(1) this ws] Cons.prems(4) False show ?thesis
      by (simp add: Let_def)
  next
    case over: True
    have one: "\<forall>x\<in>set [word]. visible x" using w by simp
    show ?thesis
    proof (cases "temp = []")
      case True
      from Cons.IH [OF Cons.prems(1) one ws] Cons.prems(4) over True show ?thesis
        by (simp add: Let_def)
    next
      case False
      obtain c p where sc: "sentence_chunk doc_text did md temp ttoks idx pos = (c, p)"
        by (cases "sentence_chunk doc_text did md temp ttoks idx pos")
      from sentence_chunk_ok [OF False Cons.prems(2) sc] Cons.prems(1)
      have "\<forall>x\<in>set (chunks @ [c]). chunk_ok x" by simp
      from Cons.IH [OF this one ws] Cons.prems(4) over False sc show ?thesis
        by (simp add: Let_def)
    qed
  qed
qed

lemma sentence_loop_ok:
  assumes "\<forall>c\<in>set chunks. chunk_ok c" and "\<forall>w\<in>set current. visible w"
  shows "\<forall>c\<in>set (sentence_loop tok budget doc_text did md sentences chunks current ctoks idx pos).
           chunk_ok c"
  using assms
proof (induction sentences arbitrary: chunks current ctoks idx pos)
  case Nil
  show ?case
  proof (cases "current = []")
    case True
    with Nil show ?thesis by simp
  next
    case False
    obtain c p where sc: "sentence_chunk doc_text did md current ctoks idx pos = (c, p)"
      by (cases "sentence_chunk doc_text did md current ctoks idx pos")
    from sentence_chunk_ok [OF False Nil(2) sc] Nil(1) sc False show ?thesis by simp
  qed
next
  case (Cons raw sentences)
  define sentence where "sentence = strip raw"
  show ?case
  proof (cases "sentence = []")
    case True
    with Cons show ?thesis by (simp add: sentence_def)
  next
    case ne: False
    then have vis: "visible sentence" unfolding sentence_def by (rule strip_visible)
    show ?thesis
    proof (cases "int (tok sentence) > budget")
      case big: True
      obtain chunks1 idx1 pos1 current1 tokens1 where flush:
        "(if current \<noteq> []
          then (case sentence_chunk doc_text did md current ctoks idx pos of
                  (c, pos') \<Rightarrow> (chunks @ [c], idx + 1, pos', [], 0))
          else (chunks, idx, pos, current, ctoks)) = (chunks1, idx1, pos1, current1, tokens1)"
        by (metis prod_cases5)
      have ok1: "\<forall>c\<in>set chunks1. chunk_ok c" and cur1: "\<forall>w\<in>set current1. visible w"
      proof -
        show "\<forall>c\<in>set chunks1. chunk_ok c"
        proof (cases "current = []")
          case True
          with flush Cons.prems(1) show ?thesis by simp
        next
          case False
          obtain c p where sc: "sentence_chunk doc_text did md current ctoks idx pos = (c, p)"
            by (cases "sentence_chunk doc_text did md current ctoks idx pos")
          from sentence_chunk_ok [OF False Cons.prems(2) sc] Cons.prems(1) flush False sc
          show ?thesis by auto
        qed
        show "\<forall>w\<in>set current1. visible w"
          using flush Cons.prems(2) by (auto split: if_splits prod.splits)
      qed
      obtain chunks2 idx2 pos2 temp ttoks where wl:
        "words_loop tok budget doc_text did md (py_words sentence) chunks1 idx1 pos1 [] 0 =
           (chunks2, idx2, pos2, temp, ttoks)"
        by (metis prod_cases5)
      have "\<forall>w\<in>set ([]::string list). visible w" by simp
      from words_loop_ok [OF ok1 this py_words_visible wl]
      have ok2: "\<forall>c\<in>set chunks2. chunk_ok c" and tmp: "\<forall>w\<in>set temp. visible w" by simp_all
      from Cons.IH [OF ok2 tmp] Cons.IH [OF ok2 cur1] ne big flush wl show ?thesis
        by (simp add: sentence_def [symmetric] Let_def)
    next
      case small: False
      show ?thesis
      proof (cases "ctoks + int (tok sentence) > budget")
        case False
        from Cons.prems(2) vis have "\<forall>w\<in>set (current @ [sentence]). visible w" by simp
        from Cons.IH [OF Cons.prems(1) this] ne small False show ?thesis
          by (simp add: sentence_def [symmetric] Let_def)
      next
        case over: True
        have one: "\<forall>w\<in>set [sentence]. visible w" using vis by simp
        show ?thesis
        proof (cases "current = []")
          case True
          from Cons.IH [OF Cons.prems(1) one] ne small over True show ?thesis
            by (simp add: sentence_def [symmetric] Let_def)
        next
          case False
          obtain c p where sc: "sentence_chunk doc_text did md current ctoks idx pos = (c, p)"
            by (cases "sentence_chunk doc_text did md current ctoks idx pos")
          from sentence_chunk_ok [OF False Cons.prems(2) sc] Cons.prems(1)
          have "\<forall>x\<in>set (chunks @ [c]). chunk_ok x" by simp
          from Cons.IH [OF this one] ne small over False sc show ?thesis
            by (simp add: sentence_def [symmetric] Let_def)
        qed
      qed
    qed
  qed
qed

lemma chunk_by_sentence_ok: "\<forall>c\<in>set (chunk_by_sentence tok settings doc_text did md). chunk_ok c"
  unfolding chunk_by_sentence_def by (rule sentence_loop_ok) simp_all


text \<open>
  C9 as stated fails for the fixed-size strategy with a negative window. With
  \<open>chunk_size = -1\<close> and \<open>chunk_overlap = -5\<close> the text \<open>abc\<close> gives one chunk, \<open>ab\<close>, with
  \<open>start_char = 0\<close> and \<open>end_char = -1\<close>.
\<close>

theorem negative_window_counterexample:
  "map_option (map chunk_text)
     (chunk_document run_count_tokens
        \<lparr>chunk_size = - 1, chunk_overlap = - 5, max_chunk_size = 2000\<rparr>
        FIXED_SIZE ''abc'' ''doc'' None) = Some [''ab''] \<and>
   map_option (map start_char)
     (chunk_document run_count_tokens
        \<lparr>chunk_size = - 1, chunk_overlap = - 5, max_chunk_size = 2000\<rparr>
        FIXED_SIZE ''abc'' ''doc'' None) = Some [0] \<and>
   map_option (map end_char)
     (chunk_document run_count_tokens
        \<lparr>chunk_size = - 1, chunk_overlap = - 5, max_chunk_size = 2000\<rparr>
        FIXED_SIZE ''abc'' ''doc'' None) = Some [- 1]"
  by (simp add: chunk_document_def chunk_fixed_size_def fixed_loop.simps fixed_emit_def
      window_end_def next_start_def py_rfind_char_def py_slice_def py_norm_def strip_def
      py_isspace_def Let_def)

text \<open>
  C9, amended: every chunk emitted by the recursive, semantic or sentence strategy, and
  every chunk emitted by the fixed-size strategy when \<open>chunk_size\<close> is not negative,
  satisfies \<open>start_char < end_char\<close>, and its text is neither empty nor made of whitespace
  only.
\<close>

theorem chunks_well_formed:
  assumes "strategy = FIXED_SIZE \<longrightarrow> 0 \<le> chunk_size settings"
    and "chunk_document tok settings strategy doc_text did metadata_opt = Some chunks"
    and "c \<in> set chunks"
  shows "start_char c < end_char c \<and> chunk_text c \<noteq> [] \<and>
         (\<exists>ch\<in>set (chunk_text c). \<not> py_isspace ch)"
proof -
  have "\<forall>c\<in>set chunks. chunk_ok c"
    using assms(1,2) chunk_fixed_size_ok chunk_recursive_ok chunk_by_sentence_ok
    by (cases strategy) (auto simp: chunk_document_def chunk_semantic_def Let_def)
  with assms(3) have "chunk_ok c" by simp
  then show ?thesis using visible_nonspace [of "chunk_text c"]
    by (simp add: chunk_ok_def visible_def)
qed

text \<open>C9, amended, at a concrete input: the fixed-size chunk of the text \<open>hello\<close>.\<close>

theorem chunks_well_formed_witness:
  "0 \<le> chunk_size \<lparr>chunk_size = 10, chunk_overlap = 2, max_chunk_size = 2000\<rparr> \<and>
   chunk_document run_count_tokens
     \<lparr>chunk_size = 10, chunk_overlap = 2, max_chunk_size = 2000\<rparr>
     FIXED_SIZE ''hello'' ''doc'' None =
     Some [\<lparr>chunk_text = ''hello'', chunk_index = 0, doc_id = ''doc'', start_char = 0,
             end_char = 10, token_count = 1,
             metadata = [''strategy'' \<mapsto> PStr ''fixed_size'']\<rparr>] \<and>
   start_char \<lparr>chunk_text = ''hello'', chunk_index = 0, doc_id = ''doc'', start_char = 0,
               end_char = 10, token_count = 1,
               metadata = [''strategy'' \<mapsto> PStr ''fixed_size'']\<rparr>
     < end_char \<lparr>chunk_text = ''hello'', chunk_index = 0, doc_id = ''doc'', start_char = 0,
                 end_char = 10, token_count = 1,
                 metadata = [''strategy'' \<mapsto> PStr ''fixed_size'']\<rparr> \<and>
   (\<exists>ch\<in>set ''hello''. \<not> py_isspace ch)"
proof -
  have run: "chunk_document run_count_tokens
     \<lparr>chunk_size = 10, chunk_overlap = 2, max_chunk_size = 2000\<rparr>
     FIXED_SIZE ''hello'' ''doc'' None =
     Some [\<lparr>chunk_text = ''hello'', chunk_index = 0, doc_id = ''doc'', start_char = 0,
             end_char = 10, token_count = 1,
             metadata = [''strategy'' \<mapsto> PStr ''fixed_size'']\<rparr>]"
    by (simp add: chunk_document_def chunk_fixed_size_def fixed_loop.simps fixed_emit_def
        window_end_def next_start_def py_slice_def py_norm_def strip_def py_isspace_def
        run_count_tokens_def Let_def)
  from chunks_well_formed [OF _ run] run show ?thesis by simp
qed

section \<open>The recursive strategy: the token budget\<close>

text \<open>
  C2: a chunk of the recursive strategy can exceed the budget although its text contains
  a separator. \<open>_split_text\<close> groups the parts of a split while the sum of their token
  counts stays within \<open>chunk_size\<close> (line 193), and then joins the group with the
  separator (lines 195 and 203), whose tokens it has not counted. With a budget of 2
  tokens the text of two one-token paragraphs is split at the paragraph break into the
  parts \<open>a\<close> and \<open>b\<close>, of one token each, and joined again into one chunk of 3 tokens.
\<close>

theorem recursive_budget_exceeded:
  "map_option (map token_count)
     (chunk_document run_count_tokens
        \<lparr>chunk_size = 2, chunk_overlap = 0, max_chunk_size = 2000\<rparr>
        RECURSIVE ''a\<newline>\<newline>b'' ''doc'' None) = Some [3] \<and>
   map_option (map chunk_text)
     (chunk_document run_count_tokens
        \<lparr>chunk_size = 2, chunk_overlap = 0, max_chunk_size = 2000\<rparr>
        RECURSIVE ''a\<newline>\<newline>b'' ''doc'' None) = Some [''a\<newline>\<newline>b''] \<and>
   py_split ''\<newline>\<newline>'' ''a\<newline>\<newline>b'' = [''a'', ''b''] \<and>
   run_count_tokens ''a'' = 1 \<and> run_count_tokens ''b'' = 1 \<and>
   run_count_tokens ''a\<newline>\<newline>b'' = 3"
  by (simp add: chunk_document_def chunk_recursive_def separators_def py_split_def
      run_count_tokens_def strip_def py_isspace_def py_find_def py_norm_def Let_def)

section \<open>The recursive strategy: chunk indices\<close>

text \<open>
  C1 fails on the code: the recursive strategy numbers its chunks with the index that
  \<open>enumerate\<close> gives to the pieces, and a piece that is empty after stripping is skipped
  without being counted out. The text below begins with a paragraph break, so its first
  piece is empty and the two chunks get the indices 1 and 2.
\<close>

theorem recursive_index_gap:
  "map_option (map chunk_index)
     (chunk_document run_count_tokens
        \<lparr>chunk_size = 1, chunk_overlap = 0, max_chunk_size = 2000\<rparr>
        RECURSIVE ''\<newline>\<newline>hello world'' ''doc'' None) = Some [1, 2] \<and>
   map_option (map chunk_text)
     (chunk_document run_count_tokens
        \<lparr>chunk_size = 1, chunk_overlap = 0, max_chunk_size = 2000\<rparr>
        RECURSIVE ''\<newline>\<newline>hello world'' ''doc'' None) = Some [''hello'', ''world'']"
  by (simp add: chunk_document_def chunk_recursive_def separators_def py_split_def
      run_count_tokens_def strip_def py_isspace_def py_find_def py_norm_def Let_def)

section \<open>Vector records\<close>

lemma make_record_id: "make_record ec v = Inr r \<Longrightarrow> vector_id r = id_of_chunk ec"
  by (auto simp: make_record_def id_of_chunk_def split: sum.splits)

lemma make_record_values: "make_record ec v = Inr r \<Longrightarrow> vector_values r = v"
  by (auto simp: make_record_def split: sum.splits)

lemma annotation_fields_dom:
  "annotation_fields ec = Inr fixed \<Longrightarrow> dom fixed = set fixed_names"
  by (auto simp: annotation_fields_def fixed_names_def Let_def split: sum.splits if_splits)

lemma build_metadata_copied:
  assumes "annotation_fields ec = Inr fixed" and "build_metadata ec = Inr md"
  shows "copied_at (metadata (original_chunk ec)) fixed md k"
proof -
  from assms have md: "md = fixed ++ inherited_scalars (metadata (original_chunk ec))"
    by (simp add: build_metadata_def)
  show ?thesis
  proof (cases "metadata (original_chunk ec) k")
    case None
    then show ?thesis by (simp add: copied_at_def md inherited_scalars_def map_add_def)
  next
    case (Some v)
    then show ?thesis
      by (cases v) (simp_all add: copied_at_def md inherited_scalars_def map_add_def)
  qed
qed

lemma make_record_metadata:
  assumes "make_record ec v = Inr r"
  shows "scalars_copied ec r"
proof -
  from assms obtain md where
    b: "build_metadata ec = Inr md" and r: "vector_metadata r = md"
    by (auto simp: make_record_def split: sum.splits)
  from b obtain fixed where f: "annotation_fields ec = Inr fixed"
    by (auto simp: build_metadata_def split: sum.splits)
  from build_metadata_copied [OF f b] annotation_fields_dom [OF f] f r
  show ?thesis unfolding scalars_copied_def by blast
qed

lemma create_vector_record:
  "create_vector_for_enriched_chunk api model ec use w = (Inr r, w') \<Longrightarrow>
   \<exists>v. make_record ec v = Inr r"
  by (auto simp: create_vector_for_enriched_chunk_def split: prod.splits sum.splits)

lemma make_records_rel:
  "make_records pairs = Inr rs \<Longrightarrow>
   list_all2 (\<lambda>p r. make_record (fst p) (snd p) = Inr r) pairs rs"
proof (induction pairs arbitrary: rs)
  case Nil
  then show ?case by simp
next
  case (Cons p pairs)
  obtain ec v where p: "p = (ec, v)" by (cases p)
  from Cons.prems p obtain r rest where
    "make_record ec v = Inr r" "make_records pairs = Inr rest" "rs = r # rest"
    by (auto split: sum.splits)
  with Cons.IH p show ?case by simp
qed

lemma create_vectors_records:
  assumes "create_vectors_batch api model ecs use w = (Inr rs, w')"
  shows "list_all2 (\<lambda>ec r. \<exists>v. make_record ec v = Inr r) (take (length rs) ecs) rs"
proof -
  from assms obtain embeddings where
    m: "make_records (zip ecs embeddings) = Inr rs"
    by (auto simp: create_vectors_batch_def split: prod.splits sum.splits)
  from make_records_rel [OF m]
  have rel: "list_all2 (\<lambda>p r. make_record (fst p) (snd p) = Inr r) (zip ecs embeddings) rs" .
  then have len: "length rs = min (length ecs) (length embeddings)"
    by (auto dest: list_all2_lengthD)
  show ?thesis
  proof (rule list_all2_all_nthI)
    show "length (take (length rs) ecs) = length rs" using len by simp
  next
    fix n assume n: "n < length (take (length rs) ecs)"
    with len have n': "n < length (zip ecs embeddings)" by simp
    from list_all2_nthD [OF rel n'] n' n
    show "\<exists>v. make_record (take (length rs) ecs ! n) v = Inr (rs ! n)" by auto
  qed
qed

lemma list_all2_map_eq:
  "list_all2 (\<lambda>x r. f r = g x) xs rs \<Longrightarrow> map f rs = map g xs"
  by (induction xs rs rule: list_all2_induct) simp_all

lemma single_record_id:
  assumes "create_vector_for_enriched_chunk api model ec use w = (Inr r, w')"
  shows "vector_id r = id_of_chunk ec"
proof -
  from create_vector_record [OF assms] obtain v where "make_record ec v = Inr r" ..
  then show ?thesis by (rule make_record_id)
qed

lemma batch_record_ids:
  assumes "create_vectors_batch api model ecs use w = (Inr rs, w')"
  shows "map vector_id rs = map id_of_chunk (take (length rs) ecs)"
proof -
  from create_vectors_records [OF assms]
  have "list_all2 (\<lambda>ec r. vector_id r = id_of_chunk ec) (take (length rs) ecs) rs"
    by (rule list_all2_mono) (auto dest: make_record_id)
  then show ?thesis by (rule list_all2_map_eq)
qed

lemma same_keys_same_ids:
  "map (\<lambda>ec. (doc_id (original_chunk ec), chunk_index (original_chunk ec))) xs =
   map (\<lambda>ec. (doc_id (original_chunk ec), chunk_index (original_chunk ec))) ys \<Longrightarrow>
   map id_of_chunk xs = map id_of_chunk ys"
proof (induction xs arbitrary: ys)
  case Nil
  then show ?case by simp
next
  case (Cons x xs)
  then obtain y ys' where ys: "ys = y # ys'" by (cases ys) auto
  with Cons.prems have "id_of_chunk x = id_of_chunk y"
    by (simp add: id_of_chunk_def)
  moreover from Cons.prems ys have "map id_of_chunk xs = map id_of_chunk ys'"
    by (intro Cons.IH) simp
  ultimately show ?case using ys by simp
qed


lemma sample_metadata:
  "build_metadata sample_enriched = Inr (vector_metadata sample_record)"
  by (simp add: build_metadata_def annotation_fields_def sample_enriched_def
      basic_enriched_chunk_def sample_chunk_def sample_record_def join_first_def
      py_slice_def py_norm_def inherited_scalars_def map_add_def fun_eq_iff)

lemma sample_make_record: "make_record sample_enriched [1, 2] = Inr sample_record"
  by (simp add: make_record_def sample_metadata)
     (simp add: sample_record_def sample_enriched_def basic_enriched_chunk_def
        sample_chunk_def make_vector_id_def str_int_def)

lemma sample_single:
  "create_vector_for_enriched_chunk pair_api ''text-embedding-3-large'' sample_enriched False 0 =
     (Inr sample_record, 1)"
  by (simp add: create_vector_for_enriched_chunk_def generate_embedding_def with_retry_def
      embedding_attempt_def pair_api_def sample_make_record)

lemma sample_batch:
  "create_vectors_batch pair_api ''text-embedding-3-large'' [sample_enriched] False 0 =
     (Inr [sample_record], 1)"
  by (simp add: create_vectors_batch_def generate_embeddings_batch_def embed_group_def
      py_slice_def py_norm_def pair_api_def sample_make_record Let_def)

lemma batch_scalars_copied:
  assumes "create_vectors_batch api model ecs use w = (Inr rs, w')"
  shows "list_all2 scalars_copied (take (length rs) ecs) rs"
  using create_vectors_records [OF assms]
  by (rule list_all2_mono) (auto dest: make_record_metadata)

lemma build_metadata_raises:
  "isl (build_metadata (ec\<lparr>original_chunk := (original_chunk ec)\<lparr>metadata := md\<rparr>\<rparr>)) =
   isl (build_metadata ec)"
  by (simp add: build_metadata_def annotation_fields_def Let_def split: sum.splits)


text \<open>
  C6: the id of a vector record is a function of the \<open>doc_id\<close> and the \<open>chunk_index\<close> of
  the chunk it is built from, and of nothing else. The record that
  \<open>create_vector_for_enriched_chunk\<close> returns has the id \<open>doc_id_chunk_index\<close>; the
  records that \<open>create_vectors_batch\<close> returns have these ids, in the order of the chunks;
  and two runs that return a record for every chunk, over chunks with the same \<open>doc_id\<close>
  and \<open>chunk_index\<close>, give the same ids, whatever the service, the model, the
  enrichment and the state of the world are.
\<close>

theorem vector_ids_deterministic:
  "(create_vector_for_enriched_chunk api model ec use w = (Inr r, w') \<longrightarrow>
      vector_id r = id_of_chunk ec) \<and>
   (create_vectors_batch api model ecs use w = (Inr rs, w'') \<longrightarrow>
      map vector_id rs = map id_of_chunk (take (length rs) ecs)) \<and>
   (create_vectors_batch api1 model1 ecs1 use1 w1 = (Inr rs1, w1') \<and>
    create_vectors_batch api2 model2 ecs2 use2 w2 = (Inr rs2, w2') \<and>
    length rs1 = length ecs1 \<and> length rs2 = length ecs2 \<and>
    map (\<lambda>ec. (doc_id (original_chunk ec), chunk_index (original_chunk ec))) ecs1 =
    map (\<lambda>ec. (doc_id (original_chunk ec), chunk_index (original_chunk ec))) ecs2 \<longrightarrow>
      map vector_id rs1 = map vector_id rs2)"
proof (intro conjI impI)
  assume "create_vector_for_enriched_chunk api model ec use w = (Inr r, w')"
  then show "vector_id r = id_of_chunk ec" by (rule single_record_id)
next
  assume "create_vectors_batch api model ecs use w = (Inr rs, w'')"
  then show "map vector_id rs = map id_of_chunk (take (length rs) ecs)"
    by (rule batch_record_ids)
next
  assume a: "create_vectors_batch api1 model1 ecs1 use1 w1 = (Inr rs1, w1') \<and>
    create_vectors_batch api2 model2 ecs2 use2 w2 = (Inr rs2, w2') \<and>
    length rs1 = length ecs1 \<and> length rs2 = length ecs2 \<and>
    map (\<lambda>ec. (doc_id (original_chunk ec), chunk_index (original_chunk ec))) ecs1 =
    map (\<lambda>ec. (doc_id (original_chunk ec), chunk_index (original_chunk ec))) ecs2"
  then have "map vector_id rs1 = map id_of_chunk ecs1"
    using batch_record_ids [of api1 model1 ecs1 use1 w1 rs1 w1'] by simp
  moreover from a have "map vector_id rs2 = map id_of_chunk ecs2"
    using batch_record_ids [of api2 model2 ecs2 use2 w2 rs2 w2'] by simp
  moreover from a have "map id_of_chunk ecs1 = map id_of_chunk ecs2"
    by (intro same_keys_same_ids) simp
  ultimately show "map vector_id rs1 = map vector_id rs2" by simp
qed

text \<open>C6 at a concrete input: the sample chunk, built alone, in a batch, and in a second run.\<close>

theorem vector_ids_deterministic_witness:
  "create_vector_for_enriched_chunk pair_api ''text-embedding-3-large'' sample_enriched False 0 =
     (Inr sample_record, 1) \<and>
   vector_id sample_record = id_of_chunk sample_enriched \<and>
   id_of_chunk sample_enriched = ''doc_0'' \<and>
   create_vectors_batch pair_api ''text-embedding-3-large'' [sample_enriched] False 0 =
     (Inr [sample_record], 1) \<and>
   map vector_id [sample_record] = map id_of_chunk (take (length [sample_record]) [sample_enriched]) \<and>
   create_vectors_batch pair_api ''text-embedding-3-small'' [sample_enriched] True 5 =
     (Inr [sample_record], 6) \<and>
   map vector_id [sample_record] = map vector_id [sample_record]"
proof -
  have other: "create_vectors_batch pair_api ''text-embedding-3-small'' [sample_enriched] True 5 =
     (Inr [sample_record], 6)"
    by (simp add: create_vectors_batch_def generate_embeddings_batch_def embed_group_def
        py_slice_def py_norm_def pair_api_def sample_make_record Let_def)
  have "id_of_chunk sample_enriched = ''doc_0''"
    by (simp add: id_of_chunk_def sample_enriched_def basic_enriched_chunk_def
        sample_chunk_def make_vector_id_def str_int_def)
  with vector_ids_deterministic
    [where api = pair_api and model = "''text-embedding-3-large''" and ec = sample_enriched
       and use = False and w = 0 and r = sample_record and w' = 1
       and ecs = "[sample_enriched]" and rs = "[sample_record]" and w'' = 1
       and ?api1.0 = pair_api and ?model1.0 = "''text-embedding-3-large''"
       and ?ecs1.0 = "[sample_enriched]" and ?use1.0 = False and ?w1.0 = 0
       and ?rs1.0 = "[sample_record]" and w1' = 1
       and ?api2.0 = pair_api and ?model2.0 = "''text-embedding-3-small''"
       and ?ecs2.0 = "[sample_enriched]" and ?use2.0 = True and ?w2.0 = 5
       and ?rs2.0 = "[sample_record]" and w2' = 6]
    sample_single sample_batch other
  show ?thesis by simp
qed


lemma mixed_metadata:
  "build_metadata (basic_enriched_chunk mixed_chunk) = Inr (vector_metadata mixed_record)"
  by (simp add: build_metadata_def annotation_fields_def basic_enriched_chunk_def
      mixed_chunk_def mixed_record_def join_first_def py_slice_def py_norm_def
      inherited_scalars_def map_add_def fun_eq_iff)

lemma mixed_make_record:
  "make_record (basic_enriched_chunk mixed_chunk) [1, 2] = Inr mixed_record"
  by (simp add: make_record_def mixed_metadata)
     (simp add: mixed_record_def basic_enriched_chunk_def mixed_chunk_def make_vector_id_def
        str_int_def)

lemma mixed_single:
  "create_vector_for_enriched_chunk pair_api ''text-embedding-3-large''
     (basic_enriched_chunk mixed_chunk) False 0 = (Inr mixed_record, 1)"
  by (simp add: create_vector_for_enriched_chunk_def generate_embedding_def with_retry_def
      embedding_attempt_def pair_api_def mixed_make_record)

lemma mixed_batch:
  "create_vectors_batch pair_api ''text-embedding-3-large''
     [basic_enriched_chunk mixed_chunk] False 0 = (Inr [mixed_record], 1)"
  by (simp add: create_vectors_batch_def generate_embeddings_batch_def embed_group_def
      py_slice_def py_norm_def pair_api_def mixed_make_record Let_def)


text \<open>
  C10: in the metadata of a record, built by either function, an inherited pair whose
  value is a \<open>str\<close>, an \<open>int\<close>, a \<open>float\<close> or a \<open>bool\<close> is present with its value, and a
  pair whose value is \<open>None\<close>, a list or a dict is omitted: its key is as the eleven
  fixed entries have it, so absent unless it is one of their names, and nothing of the
  value is flattened into the record. Whether the construction raises does not depend on
  the inherited metadata.
\<close>

theorem inherited_scalars_only:
  "(create_vector_for_enriched_chunk api model ec use w = (Inr r, w') \<longrightarrow>
      scalars_copied ec r) \<and>
   (create_vectors_batch api model ecs use w = (Inr rs, w'') \<longrightarrow>
      list_all2 scalars_copied (take (length rs) ecs) rs) \<and>
   isl (build_metadata (ec\<lparr>original_chunk := (original_chunk ec)\<lparr>metadata := md\<rparr>\<rparr>)) =
     isl (build_metadata ec)"
proof (intro conjI impI)
  assume a: "create_vector_for_enriched_chunk api model ec use w = (Inr r, w')"
  from create_vector_record [OF a] obtain v where "make_record ec v = Inr r" ..
  then show "scalars_copied ec r" by (rule make_record_metadata)
next
  assume "create_vectors_batch api model ecs use w = (Inr rs, w'')"
  then show "list_all2 scalars_copied (take (length rs) ecs) rs"
    by (rule batch_scalars_copied)
next
  show "isl (build_metadata (ec\<lparr>original_chunk := (original_chunk ec)\<lparr>metadata := md\<rparr>\<rparr>)) =
        isl (build_metadata ec)"
    by (rule build_metadata_raises)
qed


text \<open>
  C10 at a concrete input: of a chunk that inherited a value of each kind, the record has
  the string, the integer, the float and both booleans, and has no entry for the \<open>None\<close>,
  the list and the dict, nor for the key inside the dict; it has 17 entries, the eleven
  fixed ones and the six copied ones.
\<close>

theorem inherited_scalars_only_witness:
  "create_vector_for_enriched_chunk pair_api ''text-embedding-3-large''
     (basic_enriched_chunk mixed_chunk) False 0 = (Inr mixed_record, 1) \<and>
   scalars_copied (basic_enriched_chunk mixed_chunk) mixed_record \<and>
   create_vectors_batch pair_api ''text-embedding-3-large''
     [basic_enriched_chunk mixed_chunk] False 0 = (Inr [mixed_record], 1) \<and>
   list_all2 scalars_copied [basic_enriched_chunk mixed_chunk] [mixed_record] \<and>
   metadata mixed_chunk ''title'' = Some (PStr ''Guide'') \<and>
   vector_metadata mixed_record ''title'' = Some (PStr ''Guide'') \<and>
   metadata mixed_chunk ''pages'' = Some (PInt 3) \<and>
   vector_metadata mixed_record ''pages'' = Some (PInt 3) \<and>
   metadata mixed_chunk ''score'' = Some (PFloat (1 / 2)) \<and>
   vector_metadata mixed_record ''score'' = Some (PFloat (1 / 2)) \<and>
   metadata mixed_chunk ''public'' = Some (PBool True) \<and>
   vector_metadata mixed_record ''public'' = Some (PBool True) \<and>
   metadata mixed_chunk ''draft'' = Some (PBool False) \<and>
   vector_metadata mixed_record ''draft'' = Some (PBool False) \<and>
   metadata mixed_chunk ''owner'' = Some PNone \<and>
   vector_metadata mixed_record ''owner'' = None \<and>
   metadata mixed_chunk ''tags'' = Some (PList [PStr ''a'', PStr ''b'']) \<and>
   vector_metadata mixed_record ''tags'' = None \<and>
   metadata mixed_chunk ''source'' = Some (PDict [(''table'', PStr ''docs'')]) \<and>
   vector_metadata mixed_record ''source'' = None \<and>
   vector_metadata mixed_record ''table'' = None \<and>
   dom (vector_metadata mixed_record) =
     set fixed_names \<union> {''strategy'', ''title'', ''pages'', ''score'', ''public'', ''draft''}"
proof -
  have looked_up:
    "metadata mixed_chunk ''title'' = Some (PStr ''Guide'') \<and>
     vector_metadata mixed_record ''title'' = Some (PStr ''Guide'') \<and>
     metadata mixed_chunk ''pages'' = Some (PInt 3) \<and>
     vector_metadata mixed_record ''pages'' = Some (PInt 3) \<and>
     metadata mixed_chunk ''score'' = Some (PFloat (1 / 2)) \<and>
     vector_metadata mixed_record ''score'' = Some (PFloat (1 / 2)) \<and>
     metadata mixed_chunk ''public'' = Some (PBool True) \<and>
     vector_metadata mixed_record ''public'' = Some (PBool True) \<and>
     metadata mixed_chunk ''draft'' = Some (PBool False) \<and>
     vector_metadata mixed_record ''draft'' = Some (PBool False) \<and>
     metadata mixed_chunk ''owner'' = Some PNone \<and>
     vector_metadata mixed_record ''owner'' = None \<and>
     metadata mixed_chunk ''tags'' = Some (PList [PStr ''a'', PStr ''b'']) \<and>
     vector_metadata mixed_record ''tags'' = None \<and>
     metadata mixed_chunk ''source'' = Some (PDict [(''table'', PStr ''docs'')]) \<and>
     vector_metadata mixed_record ''source'' = None \<and>
     vector_metadata mixed_record ''table'' = None"
    by (simp add: mixed_chunk_def mixed_record_def)
  have entries:
    "dom (vector_metadata mixed_record) =
       set fixed_names \<union> {''strategy'', ''title'', ''pages'', ''score'', ''public'', ''draft''}"
    by (auto simp: mixed_record_def fixed_names_def split: if_splits)
  from inherited_scalars_only
    [where api = pair_api and model = "''text-embedding-3-large''"
       and ec = "basic_enriched_chunk mixed_chunk"
       and use = False and w = 0 and r = mixed_record and w' = 1
       and ecs = "[basic_enriched_chunk mixed_chunk]" and rs = "[mixed_record]" and w'' = 1]
    mixed_single mixed_batch looked_up entries
  show ?thesis by simp
qed


text \<open>
  C4 fails on the code: neither function compares the length of the embedding with the
  dimension. With the model \<open>text-embedding-3-large\<close> the dimension is 3072; a service
  that answers with a vector of length 2 gives a record with these two values, from
  either function, and nothing is raised.
\<close>

theorem dimension_not_checked:
  "create_vector_for_enriched_chunk pair_api ''text-embedding-3-large'' sample_enriched False 0 =
     (Inr sample_record, 1) \<and>
   create_vectors_batch pair_api ''text-embedding-3-large'' [sample_enriched] False 0 =
     (Inr [sample_record], 1) \<and>
   vector_values sample_record = [1, 2] \<and>
   get_embedding_dimension ''text-embedding-3-large'' = 3072"
  by (simp add: sample_single sample_batch sample_record_def get_embedding_dimension_def)

section \<open>An answer that is evaluated\<close>

lemma demo_exit_context:
  assumes "chunk_text c = ''goodbye''"
  shows "generate_context_for_chunk demo_lm ''openai'' c dc ''default'' w =
           Some (Inl (BaseException ''SystemExit''), Suc w)"
  using assms
  by (simp add: generate_context_for_chunk_def call_llm_def call_openai_def
      with_retry_call_def call_openai_attempt_def demo_lm_def enrichment_prompt_def
      format_prompt_def prompt_default_def system_message_json_def
      system_message_summary_def exit_answer_def sublist_code)

lemma demo_plain_context:
  assumes "chunk_text c = ''hello'' \<or> chunk_text c = ''hello world''"
  shows "\<exists>e. generate_context_for_chunk demo_lm ''openai'' c dc ''default'' w =
               Some (Inr ((basic_enriched_chunk c)\<lparr>enhanced_text := e\<rparr>), Suc w)"
  using assms
  by (auto simp add: generate_context_for_chunk_def call_llm_def call_openai_def
      with_retry_call_def call_openai_attempt_def demo_lm_def enrichment_prompt_def
      format_prompt_def prompt_default_def system_message_json_def
      system_message_summary_def exit_answer_def sublist_code
      enriched_from_result_def create_enhanced_text_def dict_get_def show_value_def
      basic_enriched_chunk_def)

lemma demo_sibling_context:
  assumes "chunk_text c = ''goodbye''"
  shows "generate_context_for_chunk demo_lm ''anthropic'' c dc ''default'' w =
           Some (Inr (fallback_chunk c), Suc (Suc (Suc w)))"
  using assms
  by (simp add: generate_context_for_chunk_def call_llm_def call_anthropic_def
      with_retry_def call_anthropic_attempt_def demo_lm_def enrichment_prompt_def
      format_prompt_def prompt_default_def extract_json_def
      exit_answer_def sublist_code numeral_2_eq_2)

lemma demo_exit_batch:
  "generate_contexts_batch demo_lm ''openai'' [sample_chunk, farewell_chunk, sample_chunk]
     None ''default'' 0 = Some (Inl (BaseException ''SystemExit''), 2)"
proof -
  have "chunk_text sample_chunk = ''hello'' \<or> chunk_text sample_chunk = ''hello world''"
    by (simp add: sample_chunk_def)
  from demo_plain_context [OF this, of None 0] obtain e where
    "generate_context_for_chunk demo_lm ''openai'' sample_chunk None ''default'' 0 =
       Some (Inr ((basic_enriched_chunk sample_chunk)\<lparr>enhanced_text := e\<rparr>), Suc 0)"
    by blast
  moreover have "chunk_text farewell_chunk = ''goodbye''" by (simp add: farewell_chunk_def)
  ultimately show ?thesis by (simp add: demo_exit_context)
qed


text \<open>
  C5 fails on the code: an answer of the OpenAI service can make
  \<open>generate_context_for_chunk\<close> raise. \<open>_call_openai\<close> parses the answer with \<open>eval\<close>
  (line 168, with the comment \<open>Parse JSON\<close>), which runs it as an expression. The answer
  \<open>exit_answer\<close> cannot be parsed as JSON, and its evaluation raises \<open>SystemExit\<close>, which
  is not an instance of \<open>Exception\<close>: tenacity does not retry it and the \<open>except Exception\<close>
  of \<open>generate_context_for_chunk\<close> does not catch it. So no placeholder is returned after
  the one call to the service; and the batch form ends at the second of three chunks
  without a result, the chunk before it lost and the chunk after it never enriched. On
  the Anthropic path, where the answer is parsed with \<open>json.loads\<close>, the same answer gives
  the placeholder after three attempts.
\<close>

theorem enrichment_exit_escapes:
  "openai_chat demo_lm 0 system_message_json (enrichment_prompt ''default'' farewell_chunk None) =
     (Inr exit_answer, 1) \<and>
   py_eval demo_lm 1 exit_answer = Some (Inl (BaseException ''SystemExit''), 1) \<and>
   generate_context_for_chunk demo_lm ''openai'' farewell_chunk None ''default'' 0 =
     Some (Inl (BaseException ''SystemExit''), 1) \<and>
   generate_contexts_batch demo_lm ''openai'' [sample_chunk, farewell_chunk, sample_chunk]
     None ''default'' 0 = Some (Inl (BaseException ''SystemExit''), 2) \<and>
   generate_context_for_chunk demo_lm ''anthropic'' farewell_chunk None ''default'' 0 =
     Some (Inr (fallback_chunk farewell_chunk), 3)"
proof -
  have t: "chunk_text farewell_chunk = ''goodbye''" by (simp add: farewell_chunk_def)
  have "openai_chat demo_lm 0 system_message_json
          (enrichment_prompt ''default'' farewell_chunk None) = (Inr exit_answer, 1)"
    by (simp add: demo_lm_def enrichment_prompt_def format_prompt_def prompt_default_def
        farewell_chunk_def system_message_json_def system_message_summary_def sublist_code)
  moreover have "py_eval demo_lm 1 exit_answer = Some (Inl (BaseException ''SystemExit''), 1)"
    by (simp add: demo_lm_def exit_answer_def)
  moreover have "generate_context_for_chunk demo_lm ''openai'' farewell_chunk None ''default'' 0 =
                   Some (Inl (BaseException ''SystemExit''), 1)"
    by (simp add: demo_exit_context [OF t])
  moreover have "generate_context_for_chunk demo_lm ''anthropic'' farewell_chunk None
                   ''default'' 0 = Some (Inr (fallback_chunk farewell_chunk), 3)"
    by (simp add: demo_sibling_context [OF t] numeral_3_eq_3)
  ultimately show ?thesis using demo_exit_batch by (intro conjI)
qed

section \<open>Embeddings in batches\<close>

lemma retry_loop_success:
  "retry_loop n e attempt w = (Inr x, w') \<Longrightarrow> \<exists>w0 w1. attempt w0 = (Inr x, w1)"
proof (induction n arbitrary: e w)
  case 0
  then show ?case by simp
next
  case (Suc n)
  obtain r v where a: "attempt w = (r, v)" by (cases "attempt w")
  show ?case
  proof (cases r)
    case (Inl e')
    with Suc.prems a have "retry_loop n e' attempt v = (Inr x, w')" by simp
    then show ?thesis by (rule Suc.IH)
  next
    case (Inr y)
    with Suc.prems a have "attempt w = (Inr x, w')" by simp
    then show ?thesis by blast
  qed
qed

lemma with_retry_success:
  assumes "with_retry attempt w = (Inr x, w')"
  shows "\<exists>w0 w1. attempt w0 = (Inr x, w1)"
proof -
  obtain r v where a: "attempt w = (r, v)" by (cases "attempt w")
  show ?thesis
  proof (cases r)
    case (Inl e')
    with assms a have "retry_loop 2 e' attempt v = (Inr x, w')" by (simp add: with_retry_def)
    then show ?thesis by (rule retry_loop_success)
  next
    case (Inr y)
    with assms a have "attempt w = (Inr x, w')" by (simp add: with_retry_def)
    then show ?thesis by blast
  qed
qed

lemma generate_embedding_success:
  assumes "generate_embedding api model s w = (Inr v, w')"
  shows "\<exists>w0 vs w1. api w0 model (OneText (clean_text s)) = (Inr (v # vs), w1)"
proof -
  from with_retry_success [OF assms [unfolded generate_embedding_def]]
  obtain w0 w1 where "embedding_attempt api model s w0 = (Inr v, w1)" by blast
  then show ?thesis
    by (auto simp: embedding_attempt_def split: prod.splits sum.splits list.splits)
qed

lemma take_min_length: "take (min b (length ys)) ys = take b ys"
  by (cases "b \<le> length ys") (simp_all add: min_def)

lemma batch_slice:
  assumes "0 < bs"
  shows "py_slice xs (int i * bs) (min ((int i + 1) * bs) (int (length xs))) =
         take (nat bs) (drop (i * nat bs) xs)"
proof -
  define b where "b = nat bs"
  have bs: "bs = int b" and b: "0 < b" using assms by (simp_all add: b_def)
  have norm: "py_norm (int n) (int k) = int (min k n)" for n k
    by (simp add: py_norm_def)
  have a: "int i * bs = int (i * b)" by (simp add: bs)
  have e: "(int i + 1) * bs = int ((i + 1) * b)" by (simp add: bs algebra_simps)
  have c: "min ((int i + 1) * bs) (int (length xs)) = int (min ((i + 1) * b) (length xs))"
    unfolding e by (rule of_nat_min [symmetric])
  have lo: "py_norm (int (length xs)) (int i * bs) = int (min (i * b) (length xs))"
    unfolding a by (rule norm)
  have hi: "py_norm (int (length xs)) (min ((int i + 1) * bs) (int (length xs))) =
            int (min ((i + 1) * b) (length xs))"
    unfolding c by (simp add: norm)
  have "py_slice xs (int i * bs) (min ((int i + 1) * bs) (int (length xs))) =
        take (min ((i + 1) * b) (length xs) - min (i * b) (length xs))
          (drop (min (i * b) (length xs)) xs)"
    unfolding py_slice_def Let_def lo hi by (simp add: nat_diff_distrib')
  also have "\<dots> = take b (drop (i * b) xs)"
  proof (cases "i * b \<le> length xs")
    case True
    have "(i + 1) * b = i * b + b" by (simp add: algebra_simps)
    with True have "min ((i + 1) * b) (length xs) - min (i * b) (length xs) =
               min b (length (drop (i * b) xs))"
      by (simp only: length_drop)
    with True show ?thesis
      using take_min_length [of b "drop (i * b) xs"] by (simp add: min_absorb1)
  next
    case False
    then show ?thesis by (simp add: min_def)
  qed
  finally show ?thesis by (simp add: b_def)
qed

lemma batches_cover:
  assumes "0 < bs"
  shows "n \<le> nat ((int n + bs - 1) div bs) * nat bs"
proof -
  have "int n \<le> ((int n + bs - 1) div bs) * bs"
  proof -
    have "(int n + bs - 1) = ((int n + bs - 1) div bs) * bs + (int n + bs - 1) mod bs"
      by simp
    moreover have "(int n + bs - 1) mod bs < bs" using assms by simp
    ultimately show ?thesis by linarith
  qed
  moreover have "0 \<le> (int n + bs - 1) div bs"
    using assms by (simp add: pos_imp_zdiv_nonneg_iff)
  ultimately have "int n \<le> int (nat ((int n + bs - 1) div bs) * nat bs)"
    using assms by simp
  then show ?thesis by linarith
qed

lemma flaky_answers: "answers flaky_api model is_length_vector"
  by (auto simp: answers_def flaky_api_def is_length_vector_def list_all2_map2
      list.rel_refl split: if_splits)

lemma batch_loop_snoc:
  "batch_loop api model texts bs (xs @ [i]) acc w =
     (case batch_loop api model texts bs xs acc w of
        (acc', w') \<Rightarrow>
          (case embed_group api model
                  (py_slice texts (int i * bs) (min ((int i + 1) * bs) (int (length texts)))) w' of
             (vs, w'') \<Rightarrow> (acc' @ vs, w'')))"
proof (induction xs arbitrary: acc w)
  case Nil
  then show ?case by (simp add: Let_def split: prod.splits)
next
  case (Cons x xs)
  then show ?case by (simp add: Let_def split: prod.splits)
qed

lemma batch_loop_Suc:
  assumes "0 < bs"
  shows "batch_loop api model texts bs [0..<Suc n] [] w =
           (case batch_loop api model texts bs [0..<n] [] w of
              (acc, w') \<Rightarrow>
                (case embed_group api model (group_texts texts bs n) w' of
                   (vs, w'') \<Rightarrow> (acc @ vs, w'')))"
  using batch_loop_snoc [of api model texts bs "[0..<n]" n "[]" w] batch_slice [OF assms, of texts n]
  by (simp add: group_texts_def)

lemma embed_individually_length:
  "length (fst (embed_individually api model ts w)) = length ts"
proof (induction ts arbitrary: w)
  case Nil
  then show ?case by simp
next
  case (Cons s ts)
  obtain r w' where g: "generate_embedding api model s w = (r, w')"
    by (cases "generate_embedding api model s w")
  obtain vs w'' where r: "embed_individually api model ts w' = (vs, w'')"
    by (cases "embed_individually api model ts w'")
  from Cons.IH [of w'] r have "length vs = length ts" by simp
  with g r show ?case by simp
qed

lemma embed_group_length:
  assumes "answers api model good"
  shows "length (fst (embed_group api model ts w)) = length ts"
proof -
  obtain r w' where a: "api w model (Texts (map clean_text ts)) = (r, w')"
    by (cases "api w model (Texts (map clean_text ts))")
  show ?thesis
  proof (cases r)
    case (Inl e)
    with a show ?thesis by (simp add: embed_group_def embed_individually_length)
  next
    case (Inr vs)
    with a assms have "list_all2 good (map clean_text ts) vs"
      unfolding answers_def by blast
    then have "length vs = length ts" by (auto dest: list_all2_lengthD)
    with a Inr show ?thesis by (simp add: embed_group_def)
  qed
qed

lemma group_texts_length:
  "length (group_texts texts bs i) = min (nat bs) (length texts - i * nat bs)"
  by (simp add: group_texts_def)

lemma batch_loop_length:
  assumes "0 < bs" and "answers api model good"
  shows "length (fst (batch_loop api model texts bs [0..<n] [] w)) =
           min (n * nat bs) (length texts)"
proof (induction n)
  case 0
  then show ?case by simp
next
  case (Suc n)
  obtain acc w' where l: "batch_loop api model texts bs [0..<n] [] w = (acc, w')"
    by (cases "batch_loop api model texts bs [0..<n] [] w")
  obtain vs w'' where g: "embed_group api model (group_texts texts bs n) w' = (vs, w'')"
    by (cases "embed_group api model (group_texts texts bs n) w'")
  from embed_group_length [OF assms(2), of "group_texts texts bs n" w'] g
  have "length vs = min (nat bs) (length texts - n * nat bs)"
    by (simp add: group_texts_length)
  moreover from Suc l have "length acc = min (n * nat bs) (length texts)" by simp
  ultimately have "length (acc @ vs) = min (Suc n * nat bs) (length texts)"
    unfolding length_append mult_Suc by linarith
  with l g show ?case by (simp only: batch_loop_Suc [OF assms(1)] prod.case fst_conv)
qed

lemma batch_loop_nth:
  assumes "0 < bs" and "answers api model good"
  shows "k < min (n * nat bs) (length texts) \<Longrightarrow>
         fst (batch_loop api model texts bs [0..<n] [] w) ! k =
           fst (embed_group api model (group_texts texts bs (k div nat bs))
                  (state_before_group api model texts bs w (k div nat bs))) ! (k mod nat bs)"
proof (induction n)
  case 0
  then show ?case by simp
next
  case (Suc n)
  define b where "b = nat bs"
  have b: "0 < b" using assms(1) by (simp add: b_def)
  obtain acc w' where l: "batch_loop api model texts bs [0..<n] [] w = (acc, w')"
    by (cases "batch_loop api model texts bs [0..<n] [] w")
  obtain vs w'' where g: "embed_group api model (group_texts texts bs n) w' = (vs, w'')"
    by (cases "embed_group api model (group_texts texts bs n) w'")
  from batch_loop_length [OF assms, of texts n w] l
  have len: "length acc = min (n * b) (length texts)" by (simp add: b_def)
  have res: "fst (batch_loop api model texts bs [0..<Suc n] [] w) = acc @ vs"
    using l g by (simp only: batch_loop_Suc [OF assms(1)] prod.case fst_conv)
  show ?case
  proof (cases "k < min (n * b) (length texts)")
    case True
    with Suc.IH l have "acc ! k =
        fst (embed_group api model (group_texts texts bs (k div nat bs))
               (state_before_group api model texts bs w (k div nat bs))) ! (k mod nat bs)"
      by (simp add: b_def)
    with True len res show ?thesis by (simp add: nth_append)
  next
    case False
    with Suc.prems have lo: "n * b \<le> k" and hi: "k < Suc n * b" and kl: "k < length texts"
      by (simp_all add: b_def min_def split: if_splits)
    from lo kl len have la: "length acc = n * b" by simp
    from lo hi b have d: "k div b = n"
      by (metis div_nat_eqI mult.commute)
    then have m: "k mod b = k - n * b"
      by (metis minus_mult_div_eq_mod mult.commute)
    have "w' = state_before_group api model texts bs w n"
      using l by (simp add: state_before_group_def)
    with g have "vs = fst (embed_group api model (group_texts texts bs n)
                            (state_before_group api model texts bs w n))"
      by simp
    with res la lo d m show ?thesis by (simp add: nth_append b_def)
  qed
qed

lemma embed_individually_nth:
  "j < length ts \<Longrightarrow>
   fst (embed_individually api model ts w) ! j =
     (case generate_embedding api model (ts ! j) (state_before_item api model ts w j) of
        (Inr embedding, w') \<Rightarrow> embedding
      | (Inl e, w') \<Rightarrow> zero_vector model)"
proof (induction ts arbitrary: j w)
  case Nil
  then show ?case by simp
next
  case (Cons s ts)
  obtain r w' where g: "generate_embedding api model s w = (r, w')"
    by (cases "generate_embedding api model s w")
  obtain vs w'' where r: "embed_individually api model ts w' = (vs, w'')"
    by (cases "embed_individually api model ts w'")
  show ?case
  proof (cases j)
    case 0
    with g r show ?thesis
      by (cases r) (simp_all add: state_before_item_def)
  next
    case (Suc i)
    with Cons.prems have i: "i < length ts" by simp
    have "state_before_item api model (s # ts) w (Suc i) = state_before_item api model ts w' i"
      using g by (simp add: state_before_item_def split: prod.splits)
    with Cons.IH [OF i, of w'] g r Suc show ?thesis by simp
  qed
qed

lemma embed_group_nth:
  assumes "j < length ts"
  shows "fst (embed_group api model ts w) ! j =
           (case api w model (Texts (map clean_text ts)) of
              (Inr vs, w') \<Rightarrow> vs ! j
            | (Inl e, w') \<Rightarrow>
                (case generate_embedding api model (ts ! j)
                        (state_before_item api model ts w' j) of
                   (Inr embedding, w'') \<Rightarrow> embedding
                 | (Inl e', w'') \<Rightarrow> zero_vector model))"
proof -
  obtain r w' where a: "api w model (Texts (map clean_text ts)) = (r, w')"
    by (cases "api w model (Texts (map clean_text ts))")
  show ?thesis
  proof (cases r)
    case (Inl e)
    with a embed_individually_nth [OF assms, of api model w'] show ?thesis
      by (simp add: embed_group_def)
  next
    case (Inr vs)
    with a show ?thesis by (simp add: embed_group_def)
  qed
qed

lemma group_texts_nth:
  assumes "0 < bs" and "k < length texts"
  shows "k mod nat bs < length (group_texts texts bs (k div nat bs))"
    and "group_texts texts bs (k div nat bs) ! (k mod nat bs) = texts ! k"
proof -
  define b where "b = nat bs"
  have b: "0 < b" using assms(1) by (simp add: b_def)
  have k: "k div b * b + k mod b = k" by simp
  have lt: "k mod b < b" using b by simp
  have "k div b * b \<le> k" by (metis k le_add1)
  with assms(2) k have "k mod b < length texts - k div b * b" by linarith
  with lt show "k mod nat bs < length (group_texts texts bs (k div nat bs))"
    by (simp add: group_texts_length b_def)
  with lt k show "group_texts texts bs (k div nat bs) ! (k mod nat bs) = texts ! k"
    by (simp add: group_texts_def b_def)
qed

lemma placed_nth:
  assumes "0 < bs" and "answers api model good" and "k < length texts"
    and "length texts \<le> n * nat bs"
  shows "placed api model texts bs w k (fst (batch_loop api model texts bs [0..<n] [] w) ! k)"
proof -
  from assms(3,4) have "k < min (n * nat bs) (length texts)" by simp
  from batch_loop_nth [OF assms(1,2) this, of w]
    embed_group_nth [OF group_texts_nth(1) [OF assms(1,3)], of api model
      "state_before_group api model texts bs w (k div nat bs)"]
    group_texts_nth(2) [OF assms(1,3)]
  show ?thesis
    by (simp add: placed_def Let_def split: prod.splits sum.splits)
qed

lemma placed_good:
  assumes "0 < bs" and "answers api model good" and "k < length texts"
    and "placed api model texts bs w k v"
  shows "good (clean_text (texts ! k)) v \<or> v = zero_vector model"
proof -
  let ?ts = "group_texts texts bs (k div nat bs)"
  let ?j = "k mod nat bs"
  let ?w = "state_before_group api model texts bs w (k div nat bs)"
  obtain r w' where a: "api ?w model (Texts (map clean_text ?ts)) = (r, w')"
    by (cases "api ?w model (Texts (map clean_text ?ts))")
  note j = group_texts_nth [OF assms(1,3)]
  show ?thesis
  proof (cases r)
    case (Inr vs)
    with a assms(2) have "list_all2 good (map clean_text ?ts) vs"
      unfolding answers_def by blast
    with j(1) have "good (map clean_text ?ts ! ?j) (vs ! ?j)"
      by (auto dest: list_all2_nthD)
    with j have "good (clean_text (texts ! k)) (vs ! ?j)" by simp
    with assms(4) a Inr show ?thesis by (simp add: placed_def Let_def)
  next
    case (Inl e)
    obtain r2 w2 where g: "generate_embedding api model (texts ! k)
                             (state_before_item api model ?ts w' ?j) = (r2, w2)"
      by (cases "generate_embedding api model (texts ! k)
                   (state_before_item api model ?ts w' ?j)")
    show ?thesis
    proof (cases r2)
      case (Inl e2)
      with assms(4) a \<open>r = Inl e\<close> g show ?thesis by (simp add: placed_def Let_def)
    next
      case (Inr embedding)
      with g have "generate_embedding api model (texts ! k)
                     (state_before_item api model ?ts w' ?j) = (Inr embedding, w2)"
        by simp
      from generate_embedding_success [OF this] obtain w0 vs w1 where
        "api w0 model (OneText (clean_text (texts ! k))) = (Inr (embedding # vs), w1)"
        by blast
      with assms(2) have "good (clean_text (texts ! k)) embedding"
        unfolding answers_def by blast
      with assms(4) a \<open>r = Inl e\<close> g Inr show ?thesis by (simp add: placed_def Let_def)
    qed
  qed
qed

lemma flaky_generate:
  "fst (generate_embedding flaky_api model s w) =
     (if clean_text s = ''bad'' then Inl (RetryError (ServiceError ''rejected''))
      else Inr (length_vector (clean_text s)))"
  by (simp add: generate_embedding_def with_retry_def embedding_attempt_def flaky_api_def
      numeral_2_eq_2)

lemma flaky_placed:
  assumes "0 < bs" and "k < length texts" and "placed flaky_api model texts bs w k v"
  shows "v = (if clean_text (texts ! k) = ''bad'' then zero_vector model
              else length_vector (clean_text (texts ! k)))"
proof -
  let ?ts = "group_texts texts bs (k div nat bs)"
  let ?j = "k mod nat bs"
  let ?w = "state_before_group flaky_api model texts bs w (k div nat bs)"
  note j = group_texts_nth [OF assms(1,2)]
  show ?thesis
  proof (cases "''bad'' \<in> set (map clean_text ?ts)")
    case True
    then obtain w' where a: "flaky_api ?w model (Texts (map clean_text ?ts)) =
                            (Inl (ServiceError ''rejected''), w')"
      by (simp add: flaky_api_def)
    obtain r2 w2 where g: "generate_embedding flaky_api model (texts ! k)
                             (state_before_item flaky_api model ?ts w' ?j) = (r2, w2)"
      by (cases "generate_embedding flaky_api model (texts ! k)
                   (state_before_item flaky_api model ?ts w' ?j)")
    from flaky_generate [of model "texts ! k" "state_before_item flaky_api model ?ts w' ?j"] g
    have "r2 = (if clean_text (texts ! k) = ''bad'' then Inl (RetryError (ServiceError ''rejected''))
                else Inr (length_vector (clean_text (texts ! k))))"
      by simp
    with assms(3) a g show ?thesis by (simp add: placed_def Let_def split: if_splits)
  next
    case False
    then obtain w' where a: "flaky_api ?w model (Texts (map clean_text ?ts)) =
                            (Inr (map length_vector (map clean_text ?ts)), w')"
      by (simp add: flaky_api_def)
    from j have "clean_text (texts ! k) \<in> set (map clean_text ?ts)"
      by (metis imageI nth_mem set_map)
    with False have "clean_text (texts ! k) \<noteq> ''bad''" by metis
    with assms(3) a j show ?thesis by (simp add: placed_def Let_def)
  qed
qed

lemma clean_text_xs: "clean_text (replicate n CHR ''x'') = replicate n CHR ''x''"
  by (simp add: clean_text_def strip_def py_isspace_def dropWhile_replicate)

lemma numbered_texts_nth:
  "k < 250 \<Longrightarrow>
   numbered_texts ! k = (if k = 150 then ''bad'' else replicate (Suc k) CHR ''x'')"
  by (simp add: numbered_texts_def)

lemma numbered_texts_clean:
  assumes "k < 250"
  shows "clean_text (numbered_texts ! k) =
           (if k = 150 then ''bad'' else replicate (Suc k) CHR ''x'')"
proof (cases "k = 150")
  case True
  then show ?thesis
    by (simp add: numbered_texts_def clean_text_def strip_def py_isspace_def)
next
  case False
  with assms show ?thesis by (simp only: numbered_texts_nth clean_text_xs if_False)
qed


text \<open>
  C3 as stated fails for batch sizes that are not positive: with a batch size of 0 the
  division that counts the batches raises, and with a negative batch size the range of
  batches is empty, so three texts get no vector at all. It also fails when the service
  answers a group with fewer embeddings than texts: the response is appended as it is
  (line 118), so three texts in one group get one vector, and nothing is raised.
\<close>

theorem batch_counterexample:
  "fst (generate_embeddings_batch pair_api ''text-embedding-3-small'' [''a''] 0 0) =
     Inl ZeroDivisionError \<and>
   fst (generate_embeddings_batch pair_api ''text-embedding-3-small'' [''a'', ''b'', ''c''] (- 1) 0) =
     Inr [] \<and>
   generate_embeddings_batch short_api ''text-embedding-3-small'' [''a'', ''b'', ''c''] 100 0 =
     (Inr [[1, 2]], 1)"
  by (simp add: generate_embeddings_batch_def embed_group_def short_api_def py_slice_def
      py_norm_def Let_def)


text \<open>
  C3, amended: for every list of texts and every positive batch size, with an embedding
  service that answers a group with one embedding for each text, in order (\<open>good\<close> relates
  a text to the embeddings that are acceptable for it), \<open>generate_embeddings_batch\<close>
  returns, with exactly one vector for each text, in the order of the texts. The vector at
  the position of a text is the one this run obtained for that text: the embedding at its
  position in the response for its group, if the group call returned; otherwise the
  embedding that the per-item call with its retries returned; and the zero vector of the
  configured dimension if that call raised too. So each vector is an acceptable embedding
  of its text or the zero vector.
\<close>

theorem batch_embeddings_one_per_text:
  assumes "0 < batch_size" and "answers api model good"
  shows "\<exists>embeddings w'.
           generate_embeddings_batch api model texts batch_size w = (Inr embeddings, w') \<and>
           length embeddings = length texts \<and>
           (\<forall>k<length texts.
              placed api model texts batch_size w k (embeddings ! k) \<and>
              (good (clean_text (texts ! k)) (embeddings ! k) \<or>
               embeddings ! k = zero_vector model))"
proof -
  define num where "num = nat ((int (length texts) + batch_size - 1) div batch_size)"
  obtain embeddings w' where
    loop: "batch_loop api model texts batch_size [0..<num] [] w = (embeddings, w')"
    by (cases "batch_loop api model texts batch_size [0..<num] [] w")
  have cover: "length texts \<le> num * nat batch_size"
    unfolding num_def using assms(1) by (rule batches_cover)
  from batch_loop_length [OF assms, of texts num w] loop cover
  have len: "length embeddings = length texts" by simp
  have "placed api model texts batch_size w k (embeddings ! k) \<and>
        (good (clean_text (texts ! k)) (embeddings ! k) \<or> embeddings ! k = zero_vector model)"
    if k: "k < length texts" for k
  proof -
    from placed_nth [OF assms k cover, of w] loop
    have p: "placed api model texts batch_size w k (embeddings ! k)" by simp
    with placed_good [OF assms k] show ?thesis by blast
  qed
  with len loop assms(1) show ?thesis
    by (simp add: generate_embeddings_batch_def num_def Let_def)
qed


text \<open>
  C3, amended, at a concrete input: 250 different texts in batches of 100, the text at
  position 150 being one the service rejects, alone and in a group. The result has 250
  vectors; the one at position 150 is the zero vector, and at every other position \<open>k\<close>
  it is the embedding of the text at that position, which holds the length \<open>k + 1\<close> of
  the text.
\<close>

theorem batch_embeddings_witness:
  "(0::int) < 100 \<and>
   answers flaky_api ''text-embedding-3-small'' is_length_vector \<and>
   length numbered_texts = 250 \<and>
   (\<exists>embeddings w'.
      generate_embeddings_batch flaky_api ''text-embedding-3-small'' numbered_texts 100 0 =
        (Inr embeddings, w') \<and>
      length embeddings = 250 \<and>
      embeddings =
        map (\<lambda>k. if k = 150 then zero_vector ''text-embedding-3-small''
                  else [real (Suc k)]) [0..<250])"
proof -
  let ?m = "''text-embedding-3-small''"
  have pos: "(0::int) < 100" by simp
  have n: "length numbered_texts = 250" by (simp add: numbered_texts_def)
  from batch_embeddings_one_per_text [OF pos flaky_answers, of ?m numbered_texts 0]
  obtain embeddings w' where
    run: "generate_embeddings_batch flaky_api ?m numbered_texts 100 0 = (Inr embeddings, w')"
    and len: "length embeddings = length numbered_texts"
    and each: "\<forall>k<length numbered_texts. placed flaky_api ?m numbered_texts 100 0 k (embeddings ! k)"
    by blast
  have "embeddings ! k = (if k = 150 then zero_vector ?m else [real (Suc k)])"
    if k: "k < 250" for k
  proof -
    from each k n have "placed flaky_api ?m numbered_texts 100 0 k (embeddings ! k)" by simp
    from flaky_placed [OF pos _ this] k n
    have "embeddings ! k =
            (if clean_text (numbered_texts ! k) = ''bad'' then zero_vector ?m
             else length_vector (clean_text (numbered_texts ! k)))"
      by simp
    then show ?thesis
      by (simp add: numbered_texts_clean [OF k] length_vector_def)
  qed
  with len n have "embeddings =
      map (\<lambda>k. if k = 150 then zero_vector ?m else [real (Suc k)]) [0..<250]"
    by (intro nth_equalityI) simp_all
  with run len n pos flaky_answers show ?thesis by simp
qed

section \<open>A batch run and the failure of a document\<close>

lemma demo_chunks:
  "chunk_document run_count_tokens
     \<lparr>chunk_size = 1000, chunk_overlap = 200, max_chunk_size = 2000\<rparr>
     RECURSIVE ''hello world'' d (Some m) =
   Some [\<lparr>chunk_text = ''hello world'', chunk_index = 0, doc_id = d, start_char = 0,
           end_char = 11, token_count = 2,
           metadata = m(''strategy'' \<mapsto> PStr ''recursive'')\<rparr>]"
  by (simp add: chunk_document_def chunk_recursive_def separators_def py_split_def
      run_count_tokens_def strip_def py_isspace_def py_find_def py_norm_def Let_def)

lemma farewell_chunks:
  "chunk_document run_count_tokens
     \<lparr>chunk_size = 1000, chunk_overlap = 200, max_chunk_size = 2000\<rparr>
     RECURSIVE ''goodbye'' d (Some m) =
   Some [\<lparr>chunk_text = ''goodbye'', chunk_index = 0, doc_id = d, start_char = 0,
           end_char = 7, token_count = 1,
           metadata = m(''strategy'' \<mapsto> PStr ''recursive'')\<rparr>]"
  by (simp add: chunk_document_def chunk_recursive_def separators_def py_split_def
      run_count_tokens_def strip_def py_isspace_def py_find_def py_norm_def Let_def)

lemma demo_record:
  "\<exists>r. make_record ((basic_enriched_chunk c)\<lparr>enhanced_text := e\<rparr>) v = Inr r"
  by (simp add: make_record_def build_metadata_def annotation_fields_def
      basic_enriched_chunk_def join_first_def Let_def)

lemma demo_vectors:
  "\<exists>r. create_vectors_batch pair_api model [(basic_enriched_chunk c)\<lparr>enhanced_text := e\<rparr>]
          use w = (Inr [r], Suc w)"
proof -
  from demo_record [where c = c and e = e and v = "[1, 2]"] obtain r where
    "make_record ((basic_enriched_chunk c)\<lparr>enhanced_text := e\<rparr>) [1, 2] = Inr r" by blast
  then show ?thesis
    by (simp add: create_vectors_batch_def generate_embeddings_batch_def embed_group_def
        py_slice_def py_norm_def pair_api_def Let_def)
qed

lemma demo_upsert:
  "upsert_batch (index_upsert demo_services) [r] namespace 0 w = (Inr 1, Suc w)"
  by (simp add: upsert_batch.simps demo_services_def)

lemma demo_summary:
  "generate_document_summary demo_lm ''openai'' doc_text 500 w = (''A summary'', Suc w)"
  by (simp add: generate_document_summary_def summary_call_def demo_lm_def strip_def
      py_isspace_def)

lemma demo_index_document:
  assumes "i \<noteq> PInt 3"
  shows "index_document demo_services demo_indexer i ''content'' [] True w =
         Some (Inr \<lparr>stats_doc_id = i, stats_chunks = 1, stats_vectors_upserted = 1,
                     stats_total_tokens = 2, stats_use_llm_context = False\<rparr>,
               Suc (Suc (Suc (Suc w))))"
proof -
  let ?c = "\<lparr>chunk_text = ''hello world'', chunk_index = 0,
              doc_id = py_str (llm demo_services) i, start_char = 0,
              end_char = 11, token_count = 2,
              metadata = [''id'' \<mapsto> i, ''strategy'' \<mapsto> PStr ''recursive'']\<rparr>"
  from demo_vectors [where model = "''text-embedding-3-large''" and c = ?c
       and e = "chunk_text ?c" and use = False and w = "Suc w"]
  obtain r where
    v: "create_vectors_batch pair_api ''text-embedding-3-large'' [basic_enriched_chunk ?c]
          False (Suc w) = (Inr [r], Suc (Suc w))"
    by (auto simp: basic_enriched_chunk_def)
  have s: "embeddings_create demo_services = pair_api"
    "count_tokens demo_services = run_count_tokens"
    "fetch_document_by_id demo_services w i =
       (Inr (Some [(''id'', i), (''content'', PStr ''hello world'')]), Suc w)"
    "\<And>w. now_isoformat demo_services w = (''2025-01-01T00:00:00'', w)"
    "\<And>w i s t. update_document_status demo_services w i s t = (Inr (), Suc w)"
    using assms by (simp_all add: demo_services_def)
  have t: "index_text demo_services demo_indexer i
             [(''id'', i), (''content'', PStr ''hello world'')] ''content'' [] True
             ''hello world'' (Suc w) =
           Some (Inr \<lparr>stats_doc_id = i, stats_chunks = 1, stats_vectors_upserted = 1,
                       stats_total_tokens = 2, stats_use_llm_context = False\<rparr>,
                 Suc (Suc (Suc (Suc w))))"
    by (simp add: index_text_def demo_indexer_def s demo_chunks v demo_upsert)
  show ?thesis
    by (simp add: index_document_def index_document_try_def s dict_get_def t Let_def)
qed

lemma demo_index_failure:
  "index_document demo_services demo_indexer (PInt 3) ''content'' [] True w =
   Some (Inl (Exception (ServiceError ''connection lost'')), Suc (Suc w))"
  by (simp add: index_document_def index_document_try_def demo_services_def)

lemma demo_run:
  "index_all_documents demo_services demo_indexer ''content'' [] None None True 0 =
     Some (Inr \<lparr>total_documents = 5, successful = 4, failed = 1, total_chunks = 4,
                 total_vectors = 4,
                 errors = [(PInt 3, ServiceError ''connection lost'')]\<rparr>, 20)"
proof -
  have "count_documents demo_services 0 None = (Inr 5, Suc 0)"
    "fetch_documents demo_services (Suc 0) None None = (Inr demo_documents, Suc (Suc 0))"
    by (simp_all add: demo_services_def)
  then show ?thesis
    by (simp add: index_all_documents_def demo_documents_def dict_get_def
        demo_index_document demo_index_failure)
qed

lemma farewell_facts:
  "embeddings_create farewell_services = pair_api"
  "count_tokens farewell_services = run_count_tokens"
  "llm farewell_services = demo_lm"
  "index_upsert farewell_services = index_upsert demo_services"
  "fetch_document_by_id farewell_services w i =
     (Inr (Some [(''id'', i),
                 (''content'', PStr (if i = PInt 3 then ''goodbye'' else ''hello world''))]),
      Suc w)"
  "now_isoformat farewell_services w = (''2025-01-01T00:00:00'', w)"
  "update_document_status farewell_services w i s t = (Inr (), Suc w)"
  "count_documents farewell_services w None = (Inr 5, Suc w)"
  "fetch_documents farewell_services w None None = (Inr demo_documents, Suc w)"
  by (simp_all add: farewell_services_def demo_services_def)

lemma llm_index_document:
  assumes "i \<noteq> PInt 3"
  shows "index_document farewell_services llm_indexer i ''content'' [] True w =
         Some (Inr \<lparr>stats_doc_id = i, stats_chunks = 1, stats_vectors_upserted = 1,
                     stats_total_tokens = 2, stats_use_llm_context = True\<rparr>,
               Suc (Suc (Suc (Suc (Suc (Suc w))))))"
proof -
  let ?c = "\<lparr>chunk_text = ''hello world'', chunk_index = 0,
              doc_id = py_str demo_lm i, start_char = 0,
              end_char = 11, token_count = 2,
              metadata = [''id'' \<mapsto> i, ''strategy'' \<mapsto> PStr ''recursive'']\<rparr>"
  have "chunk_text ?c = ''hello'' \<or> chunk_text ?c = ''hello world''" by simp
  from demo_plain_context [OF this, of "Some ''A summary''" "Suc (Suc w)"] obtain e where
    g: "generate_context_for_chunk demo_lm ''openai'' ?c (Some ''A summary'') ''default''
          (Suc (Suc w)) =
        Some (Inr ((basic_enriched_chunk ?c)\<lparr>enhanced_text := e\<rparr>), Suc (Suc (Suc w)))"
    by blast
  from demo_vectors [where model = "''text-embedding-3-large''" and c = ?c
       and e = e and use = True and w = "Suc (Suc (Suc w))"]
  obtain r where
    v: "create_vectors_batch pair_api ''text-embedding-3-large''
          [(basic_enriched_chunk ?c)\<lparr>enhanced_text := e\<rparr>] True (Suc (Suc (Suc w))) =
        (Inr [r], Suc (Suc (Suc (Suc w))))"
    by blast
  have t: "index_text farewell_services llm_indexer i
             [(''id'', i), (''content'', PStr ''hello world'')] ''content'' [] True
             ''hello world'' (Suc w) =
           Some (Inr \<lparr>stats_doc_id = i, stats_chunks = 1, stats_vectors_upserted = 1,
                       stats_total_tokens = 2, stats_use_llm_context = True\<rparr>,
                 Suc (Suc (Suc (Suc (Suc (Suc w))))))"
    by (simp add: index_text_def llm_indexer_def demo_indexer_def farewell_facts
        demo_summary demo_chunks g v demo_upsert)
  show ?thesis
    using assms
    by (simp add: index_document_def index_document_try_def farewell_facts dict_get_def t
        Let_def)
qed

lemma llm_index_exit:
  "index_document farewell_services llm_indexer (PInt 3) ''content'' [] True w =
   Some (Inl (BaseException ''SystemExit''), Suc (Suc (Suc w)))"
proof -
  let ?c = "\<lparr>chunk_text = ''goodbye'', chunk_index = 0,
              doc_id = py_str demo_lm (PInt 3), start_char = 0,
              end_char = 7, token_count = 1,
              metadata = [''id'' \<mapsto> PInt 3, ''strategy'' \<mapsto> PStr ''recursive'']\<rparr>"
  have "chunk_text ?c = ''goodbye''" by simp
  note g = demo_exit_context [OF this, of "Some ''A summary''" "Suc (Suc w)"]
  have t: "index_text farewell_services llm_indexer (PInt 3)
             [(''id'', PInt 3), (''content'', PStr ''goodbye'')] ''content'' [] True
             ''goodbye'' (Suc w) =
           Some (Inl (BaseException ''SystemExit''), Suc (Suc (Suc w)))"
    by (simp add: index_text_def llm_indexer_def demo_indexer_def farewell_facts
        demo_summary farewell_chunks g)
  show ?thesis
    by (simp add: index_document_def index_document_try_def farewell_facts dict_get_def t
        Let_def)
qed


text \<open>
  C7 fails on the code, with the language model on, as \<open>DocumentIndexer()\<close> sets it up.
  Of five documents the third has a text for which the service answers \<open>exit_answer\<close>;
  \<open>_call_openai\<close> evaluates the answer (line 168) and \<open>SystemExit\<close> is raised. It passes
  the handlers of \<open>generate_context_for_chunk\<close>, of \<open>index_document\<close> and of the loop of
  \<open>index_all_documents\<close>, which are all \<open>except Exception\<close>: the run ends at document 3
  and returns no statistics. The state of the world is 17: the count and the fetch of the
  documents, six calls for each of the documents 1 and 2, and the fetch, the summary and
  the enrichment call of document 3; so the status of document 3 is not set to \<open>error\<close>
  and the documents 4 and 5 are not processed. When it is the fetch of document 3 that
  raises, an instance of \<open>Exception\<close>, the run goes on as the claim says: four documents
  succeed, one fails, and the id of document 3 is in the error list.
\<close>

theorem exit_aborts_batch_run:
  "index_all_documents farewell_services llm_indexer ''content'' [] None None True 0 =
     Some (Inl (BaseException ''SystemExit''), 17) \<and>
   index_all_documents demo_services demo_indexer ''content'' [] None None True 0 =
     Some (Inr \<lparr>total_documents = 5, successful = 4, failed = 1, total_chunks = 4,
                 total_vectors = 4,
                 errors = [(PInt 3, ServiceError ''connection lost'')]\<rparr>, 20)"
proof -
  have "index_all_documents farewell_services llm_indexer ''content'' [] None None True 0 =
          Some (Inl (BaseException ''SystemExit''), 17)"
    by (simp add: index_all_documents_def farewell_facts demo_documents_def dict_get_def
        llm_index_document llm_index_exit)
  with demo_run show ?thesis by (intro conjI)
qed

end
